theory Spec2Isabelle
  imports Main
begin

section \<open>Python values used by the Idox spider\<close>

text \<open>
  The spider of \<^verbatim>\<open>src/planning_applications/spiders/idox.py\<close> is embedded
  function by function. Python exceptions are values of \<open>error\<close>; a string is a list
  of characters, a character standing for a code point below 256.
\<close>

datatype error = IndexError | ValueError | TypeError | KeyError

datatype level = INFO | ERROR

type_synonym log = "level \<times> string"

subsection \<open>Strings\<close>

text \<open>\<^verbatim>\<open>s.startswith(p)\<close>; the helper behind \<^verbatim>\<open>in\<close> and \<^verbatim>\<open>split\<close>.\<close>

fun startswith :: "string \<Rightarrow> string \<Rightarrow> bool" where
  "startswith s [] = True"
| "startswith [] (p # ps) = False"
| "startswith (c # cs) (p # ps) = (c = p \<and> startswith cs ps)"

text \<open>\<^verbatim>\<open>sub in s\<close> on strings (also XPath's \<^verbatim>\<open>contains(s, sub)\<close>): case-sensitive.\<close>

fun str_contains :: "string \<Rightarrow> string \<Rightarrow> bool" where
  "str_contains [] sub = (sub = [])"
| "str_contains (c # cs) sub = (startswith (c # cs) sub \<or> str_contains cs sub)"

text \<open>
  \<^verbatim>\<open>s.split(sep)\<close> for a non-empty separator: the pieces between the
  non-overlapping occurrences of \<open>sep\<close>, found from the left. \<open>acc\<close> holds the
  current piece, reversed. (Python raises on an empty separator; the spider only
  splits on the literals \<^verbatim>\<open>"keyVal="\<close> and \<^verbatim>\<open>"&"\<close>.)
\<close>

function split_from :: "string \<Rightarrow> string \<Rightarrow> string \<Rightarrow> string list" where
  "split_from sep acc [] = [rev acc]"
| "split_from sep acc (c # cs) =
     (if sep \<noteq> [] \<and> startswith (c # cs) sep
      then rev acc # split_from sep [] (drop (length sep) (c # cs))
      else split_from sep (c # acc) cs)"
  by pat_completeness auto
termination
  by (relation "measure (\<lambda>(sep, acc, s). length s)") auto

definition str_split :: "string \<Rightarrow> string \<Rightarrow> string list" where
  "str_split s sep = split_from sep [] s"

text \<open>\<^verbatim>\<open>new.join(pieces)\<close>.\<close>

fun str_join :: "string \<Rightarrow> string list \<Rightarrow> string" where
  "str_join new [] = []"
| "str_join new [p] = p"
| "str_join new (p # q # ps) = p @ new @ str_join new (q # ps)"

text \<open>\<^verbatim>\<open>s.replace(old, new)\<close> for a non-empty \<open>old\<close>.\<close>

definition str_replace :: "string \<Rightarrow> string \<Rightarrow> string \<Rightarrow> string" where
  "str_replace s old new = str_join new (str_split s old)"

text \<open>
  \<^verbatim>\<open>c.isspace()\<close> on the code points below 256: tab to carriage return, the four
  separators 28 to 31, the space, NEL (133) and the no-break space (160).
\<close>

definition isspace :: "char \<Rightarrow> bool" where
  "isspace c = (let n = (of_char c :: nat) in
     (9 \<le> n \<and> n \<le> 13) \<or> (28 \<le> n \<and> n \<le> 32) \<or> n = 133 \<or> n = 160)"

text \<open>\<^verbatim>\<open>s.strip()\<close>.\<close>

definition str_strip :: "string \<Rightarrow> string" where
  "str_strip s = rev (dropWhile isspace (rev (dropWhile isspace s)))"

text \<open>\<^verbatim>\<open>str(n)\<close> for an integer, as the f-strings of the log messages print it.\<close>

fun digits_of :: "nat \<Rightarrow> string" where
  "digits_of n =
     (if n < 10 then [char_of (48 + n)]
      else digits_of (n div 10) @ [char_of (48 + n mod 10)])"

definition str_of_int :: "int \<Rightarrow> string" where
  "str_of_int i = (if i < 0 then CHR ''-'' # digits_of (nat (- i)) else digits_of (nat i))"

text \<open>\<^verbatim>\<open>str(x)\<close> for an optional string: \<^verbatim>\<open>None\<close> prints as \<^verbatim>\<open>"None"\<close>.\<close>

definition str_of_opt :: "string option \<Rightarrow> string" where
  "str_of_opt x = (case x of None \<Rightarrow> ''None'' | Some s \<Rightarrow> s)"

section \<open>Field extractor\<close>

text \<open>
  A details table as the XPath query of \<^verbatim>\<open>_get_horizontal_table_value\<close> sees it:
  rows in document order, each a list of cells in document order; a cell is a
  header (\<^verbatim>\<open>th\<close>) or a value cell (\<^verbatim>\<open>td\<close>) and carries its direct text nodes.
\<close>

datatype cell = Th "string list" | Td "string list"

type_synonym row = "cell list"

type_synonym table = "row list"

text \<open>
  \<^verbatim>\<open>th[contains(text(), 'column_name')]\<close>: XPath turns the node-set \<^verbatim>\<open>text()\<close>
  into the string value of its first node (the empty string when there is none).
\<close>

fun th_contains :: "string \<Rightarrow> cell \<Rightarrow> bool" where
  "th_contains column_name (Th []) = str_contains [] column_name"
| "th_contains column_name (Th (t # ts)) = str_contains t column_name"
| "th_contains column_name (Td ts) = False"

text \<open>\<^verbatim>\<open>following-sibling::td/text()\<close> of a cell whose later siblings are \<open>cs\<close>.\<close>

fun following_td_texts :: "cell list \<Rightarrow> string list" where
  "following_td_texts [] = []"
| "following_td_texts (Th ts # cs) = following_td_texts cs"
| "following_td_texts (Td ts # cs) = ts @ following_td_texts cs"

text \<open>
  The text nodes the query selects in one row, in document order. The siblings after
  a later matching header are among those after the first, so the union over all
  matching headers is what follows the first one.
\<close>

fun row_texts :: "string \<Rightarrow> row \<Rightarrow> string list" where
  "row_texts column_name [] = []"
| "row_texts column_name (c # cs) =
     (if th_contains column_name c then following_td_texts cs
      else row_texts column_name cs)"

text \<open>
  \<^verbatim>\<open>
  def _get_horizontal_table_value(self, table, column_name):
      texts = table.xpath(f".//th[contains(text(), '{column_name}')]/following-sibling::td/text()").get()
      if texts:
          return "".join(texts).strip()
      return None
  \<close>
  \<^verbatim>\<open>.get()\<close> is the first selected node or \<^verbatim>\<open>None\<close>; joining the characters of a
  string with the empty string gives the string back.
\<close>

definition get_horizontal_table_value :: "table \<Rightarrow> string \<Rightarrow> string option" where
  "get_horizontal_table_value table column_name =
     (case concat (map (row_texts column_name) table) of
        [] \<Rightarrow> None
      | texts # _ \<Rightarrow> if texts \<noteq> [] then Some (str_strip texts) else None)"

text \<open>\<^verbatim>\<open>xs[i]\<close> for a non-negative index: out of range raises \<^verbatim>\<open>IndexError\<close>.\<close>

fun index :: "'a list \<Rightarrow> nat \<Rightarrow> error + 'a" where
  "index [] i = Inl IndexError"
| "index (x # xs) 0 = Inr x"
| "index (x # xs) (Suc i) = index xs i"

section \<open>Dates\<close>

record date =
  year :: nat
  month :: nat
  day :: nat

text \<open>The order of \<^verbatim>\<open>datetime.date\<close>: by year, then month, then day.\<close>

definition date_less :: "date \<Rightarrow> date \<Rightarrow> bool" where
  "date_less a b =
     (if year a = year b
      then (if month a = month b then day a < day b else month a < month b)
      else year a < year b)"

definition is_leap :: "nat \<Rightarrow> bool" where
  "is_leap y = (if y mod 400 = 0 then True else if y mod 100 = 0 then False else y mod 4 = 0)"

definition days_in_month :: "nat \<Rightarrow> nat \<Rightarrow> nat" where
  "days_in_month y m =
     (if m = 2 then (if is_leap y then 29 else 28)
      else if m = 4 \<or> m = 6 \<or> m = 9 \<or> m = 11 then 30 else 31)"

text \<open>The check of the \<^verbatim>\<open>date\<close> constructor: years 1 to 9999, a day of the month.\<close>

definition valid_date :: "nat \<Rightarrow> nat \<Rightarrow> nat \<Rightarrow> bool" where
  "valid_date y m d =
     (1 \<le> y \<and> y \<le> 9999 \<and> 1 \<le> m \<and> m \<le> 12 \<and> 1 \<le> d \<and> d \<le> days_in_month y m)"

subsection \<open>\<^verbatim>\<open>datetime.strptime\<close>\<close>

text \<open>
  Python compiles the format into a regular expression (case-insensitive), takes its
  first match at the start of the data, and raises \<^verbatim>\<open>ValueError\<close> when there is no
  match, when data remains after the match, or when the fields are no date. The
  directives the spider's formats use are modelled; \<open>Whitespace\<close> is a run of blanks
  in the format, compiled to \<^verbatim>\<open>\s+\<close> (a blank followed by a blank adds nothing to
  its run).
\<close>

datatype directive = Pct_a | Pct_b | Pct_d | Pct_m | Pct_Y | Literal char | Whitespace

fun compile_format :: "string \<Rightarrow> directive list option" where
  "compile_format [] = Some []"
| "compile_format [c] =
     (if c = CHR ''%'' then None
      else Some [if isspace c then Whitespace else Literal c])"
| "compile_format (c # x # cs) =
     (if c = CHR ''%'' then
        (case (if x = CHR ''a'' then Some Pct_a
               else if x = CHR ''b'' then Some Pct_b
               else if x = CHR ''d'' then Some Pct_d
               else if x = CHR ''m'' then Some Pct_m
               else if x = CHR ''Y'' then Some Pct_Y
               else None) of
           None \<Rightarrow> None
         | Some d \<Rightarrow> map_option ((#) d) (compile_format cs))
      else if isspace c then
        (if isspace x then compile_format (x # cs)
         else map_option ((#) Whitespace) (compile_format (x # cs)))
      else map_option ((#) (Literal c)) (compile_format (x # cs)))"

definition in_range :: "char \<Rightarrow> char \<Rightarrow> char \<Rightarrow> bool" where
  "in_range lo hi c = ((of_char lo :: nat) \<le> of_char c \<and> (of_char c :: nat) \<le> of_char hi)"

definition digit_val :: "char \<Rightarrow> nat" where
  "digit_val c = of_char c - 48"

definition lower :: "char \<Rightarrow> char" where
  "lower c = (if in_range CHR ''A'' CHR ''Z'' c then char_of ((of_char c :: nat) + 32) else c)"

text \<open>One character of a class \<^verbatim>\<open>[lo-hi]\<close> of digits; two such characters.\<close>

fun one_char :: "char \<Rightarrow> char \<Rightarrow> string \<Rightarrow> (nat \<times> string) list" where
  "one_char lo hi [] = []"
| "one_char lo hi (c # cs) = (if in_range lo hi c then [(digit_val c, cs)] else [])"

fun two_chars :: "char \<Rightarrow> char \<Rightarrow> char \<Rightarrow> char \<Rightarrow> string \<Rightarrow> (nat \<times> string) list" where
  "two_chars a b c d (x # y # r) =
     (if in_range a b x \<and> in_range c d y then [(10 * digit_val x + digit_val y, r)] else [])"
| "two_chars a b c d s = []"

text \<open>\<^verbatim>\<open>\d\d\d\d\<close>.\<close>

fun four_digits :: "string \<Rightarrow> (nat \<times> string) list" where
  "four_digits (a # b # c # d # r) =
     (if in_range CHR ''0'' CHR ''9'' a \<and> in_range CHR ''0'' CHR ''9'' b
         \<and> in_range CHR ''0'' CHR ''9'' c \<and> in_range CHR ''0'' CHR ''9'' d
      then [(1000 * digit_val a + 100 * digit_val b + 10 * digit_val c + digit_val d, r)]
      else [])"
| "four_digits s = []"

text \<open>A blank and one digit: the last alternative of \<^verbatim>\<open>%d\<close>.\<close>

fun blank_digit :: "string \<Rightarrow> (nat \<times> string) list" where
  "blank_digit (x # y # r) =
     (if x = CHR '' '' \<and> in_range CHR ''1'' CHR ''9'' y then [(digit_val y, r)] else [])"
| "blank_digit s = []"

fun startswith_ci :: "string \<Rightarrow> string \<Rightarrow> bool" where
  "startswith_ci s [] = True"
| "startswith_ci [] (p # ps) = False"
| "startswith_ci (c # cs) (p # ps) = (lower c = lower p \<and> startswith_ci cs ps)"

text \<open>
  The alternation of the locale's names (the C locale's, in lower case), each with
  its number, counted from \<open>k\<close>.
\<close>

fun match_names :: "string list \<Rightarrow> nat \<Rightarrow> string \<Rightarrow> (nat \<times> string) list" where
  "match_names [] k s = []"
| "match_names (n # ns) k s =
     (if startswith_ci s n then [(k, drop (length n) s)] else []) @ match_names ns (Suc k) s"

definition a_weekday :: "string list" where
  "a_weekday = [''mon'', ''tue'', ''wed'', ''thu'', ''fri'', ''sat'', ''sun'']"

definition a_month :: "string list" where
  "a_month = [''jan'', ''feb'', ''mar'', ''apr'', ''may'', ''jun'',
              ''jul'', ''aug'', ''sep'', ''oct'', ''nov'', ''dec'']"

text \<open>
  The fields found so far: year, month and day, which start as 1900, 1 and 1. Each
  directive gives its matches at the head of the data in the order the regular
  expression tries them: the alternatives of \<^verbatim>\<open>%d\<close> are
  \<^verbatim>\<open>3[0-1]|[1-2]\d|0[1-9]|[1-9]| [1-9]\<close>, those of \<^verbatim>\<open>%m\<close> are
  \<^verbatim>\<open>1[0-2]|0[1-9]|[1-9]\<close>, and \<^verbatim>\<open>\s+\<close> is greedy. The weekday that \<^verbatim>\<open>%a\<close>
  reads is not checked against the date.
\<close>

type_synonym fields = "nat \<times> nat \<times> nat"

fun match_directive :: "directive \<Rightarrow> string \<Rightarrow> fields \<Rightarrow> (string \<times> fields) list" where
  "match_directive Pct_a s (y, m, d) =
     map (\<lambda>(k, r). (r, (y, m, d))) (match_names a_weekday 0 s)"
| "match_directive Pct_b s (y, m, d) =
     map (\<lambda>(k, r). (r, (y, k, d))) (match_names a_month 1 s)"
| "match_directive Pct_d s (y, m, d) =
     map (\<lambda>(k, r). (r, (y, m, k)))
       (two_chars CHR ''3'' CHR ''3'' CHR ''0'' CHR ''1'' s
        @ two_chars CHR ''1'' CHR ''2'' CHR ''0'' CHR ''9'' s
        @ two_chars CHR ''0'' CHR ''0'' CHR ''1'' CHR ''9'' s
        @ one_char CHR ''1'' CHR ''9'' s
        @ blank_digit s)"
| "match_directive Pct_m s (y, m, d) =
     map (\<lambda>(k, r). (r, (y, k, d)))
       (two_chars CHR ''1'' CHR ''1'' CHR ''0'' CHR ''2'' s
        @ two_chars CHR ''0'' CHR ''0'' CHR ''1'' CHR ''9'' s
        @ one_char CHR ''1'' CHR ''9'' s)"
| "match_directive Pct_Y s (y, m, d) =
     map (\<lambda>(k, r). (r, (k, m, d))) (four_digits s)"
| "match_directive (Literal c) s (y, m, d) =
     (case s of [] \<Rightarrow> [] | x # r \<Rightarrow> if lower x = lower c then [(r, (y, m, d))] else [])"
| "match_directive Whitespace s (y, m, d) =
     map (\<lambda>j. (drop j s, (y, m, d))) (rev [1 ..< Suc (length (takeWhile isspace s))])"

fun match_all :: "directive list \<Rightarrow> string \<Rightarrow> fields \<Rightarrow> (string \<times> fields) list" where
  "match_all [] s f = [(s, f)]"
| "match_all (d # ds) s f =
     concat (map (\<lambda>(s', f'). match_all ds s' f') (match_directive d s f))"

text \<open>
  \<^verbatim>\<open>datetime.strptime(data_string, format)\<close>. With no directive for the time of
  day the result is midnight of the date, which is what the model returns.
\<close>

definition strptime :: "string \<Rightarrow> string \<Rightarrow> error + date" where
  "strptime data_string format =
     (case compile_format format of
        None \<Rightarrow> Inl ValueError
      | Some ds \<Rightarrow>
          (case match_all ds data_string (1900, 1, 1) of
             [] \<Rightarrow> Inl ValueError
           | (rest, (y, m, d)) # _ \<Rightarrow>
               if rest \<noteq> [] then Inl ValueError
               else if valid_date y m d then Inr \<lparr>year = y, month = m, day = d\<rparr>
               else Inl ValueError))"

text \<open>A number in at least \<open>w\<close> digits, zero-filled; \<^verbatim>\<open>strftime("%d/%m/%Y")\<close>.\<close>

definition zero_fill :: "nat \<Rightarrow> nat \<Rightarrow> string" where
  "zero_fill w n = replicate (w - length (digits_of n)) CHR ''0'' @ digits_of n"

definition strftime_d_m_Y :: "date \<Rightarrow> string" where
  "strftime_d_m_Y dt =
     zero_fill 2 (day dt) @ ''/'' @ zero_fill 2 (month dt) @ ''/'' @ zero_fill 4 (year dt)"

text \<open>\<^verbatim>\<open>str(d)\<close> of a date, as the f-strings print it: ISO format.\<close>

definition isoformat :: "date \<Rightarrow> string" where
  "isoformat dt =
     zero_fill 4 (year dt) @ ''-'' @ zero_fill 2 (month dt) @ ''-'' @ zero_fill 2 (day dt)"

section \<open>Search criteria and construction of the spider\<close>

text \<open>
  \<^verbatim>\<open>class applicationStatus(Enum)\<close>. The member \<^verbatim>\<open>ALL\<close> is written \<open>ALL_STATUS\<close>
  (\<open>ALL\<close> is a binder of HOL).
\<close>

datatype applicationStatus =
  ALL_STATUS | APPEAL_DECIDED | APPEAL_LODGED | AWAITING_DECISION
  | DECIDED | REGISTERED | UNKNOWN | WITHDRAWN

text \<open>The member's \<^verbatim>\<open>.value\<close>.\<close>

fun status_value :: "applicationStatus \<Rightarrow> string" where
  "status_value ALL_STATUS = []"
| "status_value APPEAL_DECIDED = ''Appeal decided''"
| "status_value APPEAL_LODGED = ''Appeal lodged''"
| "status_value AWAITING_DECISION = ''Awaiting decision''"
| "status_value DECIDED = ''Decided''"
| "status_value REGISTERED = ''Registered''"
| "status_value UNKNOWN = ''Unknown''"
| "status_value WITHDRAWN = ''Withdrawn''"

text \<open>\<^verbatim>\<open>applicationStatus(s)\<close>: the member with that value, or \<^verbatim>\<open>ValueError\<close>.\<close>

definition applicationStatus_of :: "string \<Rightarrow> error + applicationStatus" where
  "applicationStatus_of s =
     (if s = [] then Inr ALL_STATUS
      else if s = ''Appeal decided'' then Inr APPEAL_DECIDED
      else if s = ''Appeal lodged'' then Inr APPEAL_LODGED
      else if s = ''Awaiting decision'' then Inr AWAITING_DECISION
      else if s = ''Decided'' then Inr DECIDED
      else if s = ''Registered'' then Inr REGISTERED
      else if s = ''Unknown'' then Inr UNKNOWN
      else if s = ''Withdrawn'' then Inr WITHDRAWN
      else Inl ValueError)"

text \<open>
  Modelled from the spec: the constant \<^verbatim>\<open>DEFAULT_DATE_FORMAT\<close> of
  \<^verbatim>\<open>planning_applications.settings\<close> is not among the sources. The comments at the
  attributes \<^verbatim>\<open>start_date\<close> and \<^verbatim>\<open>end_date\<close> give the format of the configured
  dates as YYYY-MM-DD.
\<close>

definition DEFAULT_DATE_FORMAT :: string where
  "DEFAULT_DATE_FORMAT = ''%Y-%m-%d''"

text \<open>
  The two module constants, computed from the clock when the module is loaded; the
  model takes the clock's date \<open>today\<close> as a parameter.
  \<^verbatim>\<open>
  DEFAULT_START_DATE = datetime.fromisocalendar(datetime.now().year, 1, 1).date()
  DEFAULT_END_DATE = datetime.now().date()
  \<close>
  \<^verbatim>\<open>fromisocalendar(y, 1, 1)\<close> is the Monday of ISO week 1 of \<open>y\<close>. Python counts the
  days before the year, takes the weekday of 1 January (Monday is 0), and moves back
  to the Monday, or forward to the next one when 1 January falls after Thursday.
\<close>

definition days_before_year :: "nat \<Rightarrow> nat" where
  "days_before_year y = (y - 1) * 365 + (y - 1) div 4 - (y - 1) div 100 + (y - 1) div 400"

definition isoweek1monday_offset :: "nat \<Rightarrow> int" where
  "isoweek1monday_offset y =
     (let firstday = days_before_year y + 1;
          firstweekday = (firstday + 6) mod 7
      in if firstweekday > 3 then 7 - int firstweekday else - int firstweekday)"

definition DEFAULT_START_DATE :: "date \<Rightarrow> date" where
  "DEFAULT_START_DATE today =
     (let y = year today; off = isoweek1monday_offset y
      in if 0 \<le> off then \<lparr>year = y, month = 1, day = nat (1 + off)\<rparr>
         else \<lparr>year = y - 1, month = 12, day = nat (32 + off)\<rparr>)"

definition DEFAULT_END_DATE :: "date \<Rightarrow> date" where
  "DEFAULT_END_DATE today = today"

text \<open>
  The attributes \<^verbatim>\<open>__init__\<close> reads. The three search criteria may be supplied by
  the configuration (as a string or as a value) or left to the class attribute; the
  others belong to \<^verbatim>\<open>BaseSpider\<close> and its subclasses, which are not among the sources,
  and are taken as given.
\<close>

datatype date_arg = DateStr string | DateObj date

datatype status_arg = StatusStr string | StatusObj applicationStatus

record config =
  cfg_name :: string
  cfg_start_url :: string
  cfg_limit :: int
  cfg_applications_scraped :: int
  cfg_should_scrape_application :: bool
  cfg_start_date :: "date_arg option"
  cfg_end_date :: "date_arg option"
  cfg_filter_status :: "status_arg option"

record IdoxSpider =
  name :: string
  start_url :: string
  start_date :: date
  end_date :: date
  filter_status :: applicationStatus
  limit :: int
  applications_scraped :: int
  should_scrape_application :: bool

text \<open>
  The class attributes, used when the configuration supplies nothing:
  \<^verbatim>\<open>
  # Date to start searching from, format: YYYY-MM-DD. Default: 1st January of the current year
  start_date: date = "2024-11-01"
  # Date to stop searching at, format: YYYY-MM-DD. Default: today
  end_date: date = DEFAULT_END_DATE
  filter_status: applicationStatus = applicationStatus.ALL
  \<close>
\<close>

definition class_start_date :: date_arg where
  "class_start_date = DateStr ''2024-11-01''"

definition class_end_date :: "date \<Rightarrow> date_arg" where
  "class_end_date today = DateObj (DEFAULT_END_DATE today)"

definition class_filter_status :: status_arg where
  "class_filter_status = StatusObj ALL_STATUS"

text \<open>
  \<^verbatim>\<open>
  def __init__(self, *args, **kwargs):
      super().__init__(*args, **kwargs)
      if isinstance(self.start_date, str):
          self.start_date = datetime.strptime(self.start_date, DEFAULT_DATE_FORMAT).date()
      if isinstance(self.end_date, str):
          self.end_date = datetime.strptime(self.end_date, DEFAULT_DATE_FORMAT).date()
      if isinstance(self.filter_status, str):
          self.filter_status = applicationStatus(self.filter_status)
      if self.start_date > self.end_date:
          raise ValueError(...)
  \<close>
\<close>

definition to_date :: "date_arg \<Rightarrow> error + date" where
  "to_date a = (case a of DateStr s \<Rightarrow> strptime s DEFAULT_DATE_FORMAT | DateObj d \<Rightarrow> Inr d)"

definition to_status :: "status_arg \<Rightarrow> error + applicationStatus" where
  "to_status a = (case a of StatusStr s \<Rightarrow> applicationStatus_of s | StatusObj st \<Rightarrow> Inr st)"

definition IdoxSpider_init :: "date \<Rightarrow> config \<Rightarrow> error + IdoxSpider" where
  "IdoxSpider_init today cfg =
     (case to_date (case cfg_start_date cfg of None \<Rightarrow> class_start_date | Some a \<Rightarrow> a) of
        Inl e \<Rightarrow> Inl e
      | Inr sd \<Rightarrow>
          (case to_date (case cfg_end_date cfg of None \<Rightarrow> class_end_date today | Some a \<Rightarrow> a) of
             Inl e \<Rightarrow> Inl e
           | Inr ed \<Rightarrow>
               (case to_status
                       (case cfg_filter_status cfg of None \<Rightarrow> class_filter_status | Some a \<Rightarrow> a) of
                  Inl e \<Rightarrow> Inl e
                | Inr st \<Rightarrow>
                    if date_less ed sd then Inl ValueError
                    else Inr \<lparr>name = cfg_name cfg, start_url = cfg_start_url cfg,
                              start_date = sd, end_date = ed, filter_status = st,
                              limit = cfg_limit cfg,
                              applications_scraped = cfg_applications_scraped cfg,
                              should_scrape_application = cfg_should_scrape_application cfg\<rparr>)))"

text \<open>The properties \<^verbatim>\<open>formatted_start_date\<close> and \<^verbatim>\<open>formatted_end_date\<close>.\<close>

definition formatted_start_date :: "IdoxSpider \<Rightarrow> string" where
  "formatted_start_date self = strftime_d_m_Y (start_date self)"

definition formatted_end_date :: "IdoxSpider \<Rightarrow> string" where
  "formatted_end_date self = strftime_d_m_Y (end_date self)"

section \<open>Items, requests and responses\<close>

text \<open>
  Modelled from the spec: the item classes of \<^verbatim>\<open>planning_applications.items\<close> are
  not among the sources. The spec's data model gives their fields, every one of
  them optional; a structure made with no arguments has every field absent. The
  dates are what \<^verbatim>\<open>strptime\<close> returned.
\<close>

record PlanningApplicationDetailsSummary =
  reference :: "string option"
  application_received :: "date option"
  application_validated :: "date option"
  address :: "string option"
  proposal :: "string option"
  appeal_status :: "string option"
  appeal_decision :: "string option"

record PlanningApplicationDetailsFurtherInformation =
  application_type :: "string option"
  expected_decision_level :: "string option"
  case_officer :: "string option"
  parish :: "string option"
  ward :: "string option"
  applicant_name :: "string option"
  district_reference :: "string option"
  applicant_address :: "string option"
  environmental_assessment_requested :: "string option"

record PlanningApplicationItem =
  item_lpa :: string
  item_reference :: "string option"
  item_application_received :: "date option"
  item_application_validated :: "date option"
  item_address :: "string option"
  item_proposal :: "string option"
  item_appeal_status :: "string option"
  item_appeal_decision :: "string option"
  item_application_type :: "string option"
  item_expected_decision_level :: "string option"
  item_case_officer :: "string option"
  item_parish :: "string option"
  item_ward :: "string option"
  item_district_reference :: "string option"
  item_applicant_name :: "string option"
  item_applicant_address :: "string option"
  item_environmental_assessment_requested :: "string option"

text \<open>
  The \<^verbatim>\<open>meta\<close> dictionary of a request: a key that is not in the dictionary is
  \<open>None\<close>. The listing response kept under \<^verbatim>\<open>"original_response"\<close> is
  represented by its URL.
\<close>

record meta_dict =
  meta_keyval :: "string option"
  meta_original_response :: "string option"
  meta_limit :: "int option"
  meta_applications_scraped :: "int option"
  meta_details_summary :: "PlanningApplicationDetailsSummary option"
  meta_details_further_information :: "PlanningApplicationDetailsFurtherInformation option"

definition empty_meta :: meta_dict where
  "empty_meta = \<lparr>meta_keyval = None, meta_original_response = None, meta_limit = None,
                  meta_applications_scraped = None, meta_details_summary = None,
                  meta_details_further_information = None\<rparr>"

datatype callback =
  cb_submit_form | cb_parse_results
  | cb_parse_details_summary_tab | cb_parse_details_further_information_tab

text \<open>
  A request: its URL, the form data of a \<^verbatim>\<open>FormRequest\<close>, the callback and the
  \<^verbatim>\<open>meta\<close> dictionary. Every request of the detail pages carries the error callback
  \<^verbatim>\<open>handle_error\<close>.
\<close>

record request =
  request_url :: string
  formdata :: "(string \<times> string option) list option"
  callback :: callback
  request_meta :: meta_dict

text \<open>
  What a generator yields, in order, and the exception that ends it, if any.
  \<^verbatim>\<open>create_planning_application_item\<close> is a generator of items; the callbacks are
  generators whose outputs are requests and, where a callback yields the call of
  \<^verbatim>\<open>create_planning_application_item\<close> itself, that generator.
\<close>

type_synonym item_generator = "PlanningApplicationItem list \<times> error option"

datatype spider_output = Request request | Generator item_generator

text \<open>One row of the listing: \<^verbatim>\<open>result.css("a::attr(href)").get()\<close>.\<close>

record result =
  href :: "string option"

text \<open>
  A response, as the selectors of the callbacks see it:
  \<^item> \<open>url\<close>, \<open>meta\<close> (the \<^verbatim>\<open>meta\<close> of the request it answers) and the method \<open>urljoin\<close>;
  \<^item> \<open>csrf\<close>: \<^verbatim>\<open>response.css("input[name='_csrf']::attr(value)").get()\<close>;
  \<^item> \<open>form_url\<close>: the URL \<^verbatim>\<open>FormRequest.from_response\<close> takes from the page's form;
  \<^item> \<open>messagebox\<close>: the markup (\<^verbatim>\<open>extract()\<close>) of each \<^verbatim>\<open>.messagebox\<close> element;
  \<^item> \<open>applicationTools\<close>: the elements \<^verbatim>\<open>#applicationTools\<close>;
  \<^item> \<open>searchresults\<close>: for each element \<^verbatim>\<open>#searchresults\<close>, its \<^verbatim>\<open>.searchresult\<close> rows;
  \<^item> \<open>next_href\<close>: \<^verbatim>\<open>response.css(".next::attr(href)").get()\<close>;
  \<^item> \<open>simpleDetailsTable\<close>, \<open>applicationDetails\<close>: the elements with these ids.
\<close>

record response =
  url :: string
  meta :: meta_dict
  urljoin :: "string option \<Rightarrow> string"
  csrf :: "string option"
  form_url :: string
  messagebox :: "string list"
  applicationTools :: "string list"
  searchresults :: "result list list"
  next_href :: "string option"
  simpleDetailsTable :: "table list"
  applicationDetails :: "table list"

section \<open>Search query builder\<close>

text \<open>
  \<^verbatim>\<open>
  def start_requests(self):
      self.logger.info(f"Searching for {self.name} applications between {self.start_date} and
          {self.end_date} with status {self.filter_status == applicationStatus.ALL and 'all'
          or self.filter_status.value}")
      yield scrapy.Request(self.start_url, callback=self.submit_form)
  \<close>
\<close>

definition start_requests :: "IdoxSpider \<Rightarrow> log list \<times> spider_output list \<times> error option" where
  "start_requests self =
     ([(INFO, ''Searching for '' @ name self @ '' applications between ''
          @ isoformat (start_date self) @ '' and '' @ isoformat (end_date self)
          @ '' with status ''
          @ (if filter_status self = ALL_STATUS then ''all''
             else status_value (filter_status self)))],
      [Request \<lparr>request_url = start_url self, formdata = None, callback = cb_submit_form,
                request_meta = empty_meta\<rparr>],
      None)"

text \<open>
  \<^verbatim>\<open>
  def submit_form(self, response):
      self.logger.info(f"Submitting search form on {response.url}")
      formdata = {
          "_csrf": response.css("input[name='_csrf']::attr(value)").get(),
          "caseAddressType": "Application",
          "date(applicationValidatedStart)": self.formatted_start_date,
          "date(applicationValidatedEnd)": self.formatted_end_date,
          "searchType": "Application",
      }
      if self.filter_status != applicationStatus.ALL:
          formdata["caseStatus"] = self.filter_status.value
      return [scrapy.FormRequest.from_response(response, formdata=formdata, callback=self.parse_results)]
  \<close>
  The dictionary is an association list in insertion order; \<open>submit_form_formdata\<close> is
  the dictionary the function builds.
\<close>

definition submit_form_formdata :: "IdoxSpider \<Rightarrow> response \<Rightarrow> (string \<times> string option) list" where
  "submit_form_formdata self response =
     [(''_csrf'', csrf response),
      (''caseAddressType'', Some ''Application''),
      (''date(applicationValidatedStart)'', Some (formatted_start_date self)),
      (''date(applicationValidatedEnd)'', Some (formatted_end_date self)),
      (''searchType'', Some ''Application'')]
     @ (if filter_status self \<noteq> ALL_STATUS
        then [(''caseStatus'', Some (status_value (filter_status self)))]
        else [])"

definition submit_form :: "IdoxSpider \<Rightarrow> response \<Rightarrow> log list \<times> spider_output list \<times> error option" where
  "submit_form self response =
     ([(INFO, ''Submitting search form on '' @ url response)],
      [Request \<lparr>request_url = form_url response,
                formdata = Some (submit_form_formdata self response),
                callback = cb_parse_results, request_meta = empty_meta\<rparr>],
      None)"

section \<open>Detail aggregator\<close>

text \<open>
  \<^verbatim>\<open>
  def create_planning_application_item(self, meta, response):
      details_summary = meta["details_summary"]
      details_further_information = meta["details_further_information"]
      item = PlanningApplicationItem(lpa=self.name, reference=details_summary.reference, ...)
      yield item
  \<close>
  The body runs when the generator is consumed.
\<close>

definition create_planning_application_item_body ::
    "IdoxSpider \<Rightarrow> meta_dict \<Rightarrow> response \<Rightarrow> item_generator" where
  "create_planning_application_item_body self m response =
     (case meta_details_summary m of
        None \<Rightarrow> ([], Some KeyError)
      | Some details_summary \<Rightarrow>
          (case meta_details_further_information m of
             None \<Rightarrow> ([], Some KeyError)
           | Some details_further_information \<Rightarrow>
               ([\<lparr>item_lpa = name self,
                   item_reference = reference details_summary,
                   item_application_received = application_received details_summary,
                   item_application_validated = application_validated details_summary,
                   item_address = address details_summary,
                   item_proposal = proposal details_summary,
                   item_appeal_status = appeal_status details_summary,
                   item_appeal_decision = appeal_decision details_summary,
                   item_application_type = application_type details_further_information,
                   item_expected_decision_level =
                     expected_decision_level details_further_information,
                   item_case_officer = case_officer details_further_information,
                   item_parish = parish details_further_information,
                   item_ward = ward details_further_information,
                   item_district_reference = district_reference details_further_information,
                   item_applicant_name = applicant_name details_further_information,
                   item_applicant_address = applicant_address details_further_information,
                   item_environmental_assessment_requested =
                     environmental_assessment_requested details_further_information\<rparr>],
                None)))"

text \<open>
  A call of the method. Both parameters \<^verbatim>\<open>meta\<close> and \<^verbatim>\<open>response\<close> are required:
  a call that passes no \<^verbatim>\<open>response\<close> (\<open>None\<close> here) raises \<^verbatim>\<open>TypeError\<close> when it is
  made, before any generator exists.
\<close>

definition create_planning_application_item ::
    "IdoxSpider \<Rightarrow> meta_dict \<Rightarrow> response option \<Rightarrow> error + item_generator" where
  "create_planning_application_item self m response_arg =
     (case response_arg of
        None \<Rightarrow> Inl TypeError
      | Some response \<Rightarrow> Inr (create_planning_application_item_body self m response))"

text \<open>
  The two date fields of the summary tab:
  \<^verbatim>\<open>
  application_received = self._get_horizontal_table_value(summary_table, "Application Received")
  if application_received:
      details_summary.application_received = datetime.strptime(application_received, "%a %d %b %Y")
  \<close>
  The field keeps its initial absent value unless the cell's text is a non-empty
  string; an exception of \<^verbatim>\<open>strptime\<close> is not caught.
\<close>

definition strptime_if_present :: "string option \<Rightarrow> error + date option" where
  "strptime_if_present cell_text =
     (case cell_text of
        None \<Rightarrow> Inr None
      | Some s \<Rightarrow>
          if s = [] then Inr None
          else (case strptime s ''%a %d %b %Y'' of Inl e \<Rightarrow> Inl e | Inr d \<Rightarrow> Inr (Some d)))"

text \<open>
  \<^verbatim>\<open>
  def parse_details_summary_tab(self, response):
      self.logger.info(f"Parsing results on {response.url} (parse_details_summary_tab)")
      details_summary = PlanningApplicationDetailsSummary()
      summary_table = response.css("#simpleDetailsTable")[0]
      details_summary.reference = self._get_horizontal_table_value(summary_table, "Reference")
      ... (the two dates, then address, proposal, appeal_status, appeal_decision)
      meta = response.meta
      meta["details_summary"] = details_summary
      if "details_further_information" in meta:
          yield self.create_planning_application_item(meta)
      else:
          yield scrapy.Request(response.url, callback=self.parse_details_further_information_tab,
                               meta=meta, errback=self.handle_error)
  \<close>
  \<open>details_summary_of\<close> is the structure the assignments fill from the table.
\<close>

definition details_summary_of :: "table \<Rightarrow> error + PlanningApplicationDetailsSummary" where
  "details_summary_of summary_table =
     (case strptime_if_present
             (get_horizontal_table_value summary_table ''Application Received'') of
        Inl e \<Rightarrow> Inl e
      | Inr received \<Rightarrow>
          (case strptime_if_present
                  (get_horizontal_table_value summary_table ''Application Validated'') of
             Inl e \<Rightarrow> Inl e
           | Inr validated \<Rightarrow>
               Inr \<lparr>reference = get_horizontal_table_value summary_table ''Reference'',
                    application_received = received,
                    application_validated = validated,
                    address = get_horizontal_table_value summary_table ''Address'',
                    proposal = get_horizontal_table_value summary_table ''Proposal'',
                    appeal_status = get_horizontal_table_value summary_table ''Appeal Status'',
                    appeal_decision =
                      get_horizontal_table_value summary_table ''Appeal Decision''\<rparr>))"

definition parse_details_summary_tab ::
    "IdoxSpider \<Rightarrow> response \<Rightarrow> log list \<times> spider_output list \<times> error option" where
  "parse_details_summary_tab self response =
     (let logs = [(INFO, ''Parsing results on '' @ url response
                          @ '' (parse_details_summary_tab)'')]
      in case index (simpleDetailsTable response) 0 of
           Inl e \<Rightarrow> (logs, [], Some e)
         | Inr summary_table \<Rightarrow>
             (case details_summary_of summary_table of
                Inl e \<Rightarrow> (logs, [], Some e)
              | Inr details_summary \<Rightarrow>
                  (let m = (meta response)\<lparr>meta_details_summary := Some details_summary\<rparr>
                   in if meta_details_further_information m \<noteq> None
                      then (case create_planning_application_item self m None of
                              Inl e \<Rightarrow> (logs, [], Some e)
                            | Inr g \<Rightarrow> (logs, [Generator g], None))
                      else (logs,
                            [Request \<lparr>request_url = url response, formdata = None,
                               callback = cb_parse_details_further_information_tab,
                               request_meta = m\<rparr>],
                            None))))"

text \<open>
  \<^verbatim>\<open>
  def parse_details_further_information_tab(self, response):
      self.logger.info(f"Parsing results on {response.url} (parse_details_further_information_tab)")
      details_table = response.css("#applicationDetails")[0]
      details_further_information = PlanningApplicationDetailsFurtherInformation()
      details_further_information.application_type = self._get_horizontal_table_value(
          details_table, "Application Type")
      ...
      meta = response.meta
      meta["details_further_information"] = details_further_information
      if "details_summary" in meta:
          yield self.create_planning_application_item(meta, response)
      else:
          yield scrapy.Request(response.url, callback=self.parse_details_summary_tab,
                               meta=meta, errback=self.handle_error)
  \<close>
  \<open>details_further_information_of\<close> is the structure the assignments fill from the
  table (\<^verbatim>\<open>applicant_name\<close> is assigned twice, from the same cell).
\<close>

definition details_further_information_of ::
    "table \<Rightarrow> PlanningApplicationDetailsFurtherInformation" where
  "details_further_information_of details_table =
     \<lparr>application_type = get_horizontal_table_value details_table ''Application Type'',
      expected_decision_level =
        get_horizontal_table_value details_table ''Expected Decision Level'',
      case_officer = get_horizontal_table_value details_table ''Case Officer'',
      parish = get_horizontal_table_value details_table ''Parish'',
      ward = get_horizontal_table_value details_table ''Ward'',
      applicant_name = get_horizontal_table_value details_table ''Applicant Name'',
      district_reference = get_horizontal_table_value details_table ''District Reference'',
      applicant_address = get_horizontal_table_value details_table ''Applicant Address'',
      environmental_assessment_requested =
        get_horizontal_table_value details_table ''Environmental Assessment Requested''\<rparr>"

definition parse_details_further_information_tab ::
    "IdoxSpider \<Rightarrow> response \<Rightarrow> log list \<times> spider_output list \<times> error option" where
  "parse_details_further_information_tab self response =
     (let logs = [(INFO, ''Parsing results on '' @ url response
                          @ '' (parse_details_further_information_tab)'')]
      in case index (applicationDetails response) 0 of
           Inl e \<Rightarrow> (logs, [], Some e)
         | Inr details_table \<Rightarrow>
             (let details_further_information = details_further_information_of details_table;
                  m = (meta response)
                        \<lparr>meta_details_further_information := Some details_further_information\<rparr>
              in if meta_details_summary m \<noteq> None
                 then (case create_planning_application_item self m (Some response) of
                         Inl e \<Rightarrow> (logs, [], Some e)
                       | Inr g \<Rightarrow> (logs, [Generator g], None))
                 else (logs,
                       [Request \<lparr>request_url = url response, formdata = None,
                          callback = cb_parse_details_summary_tab, request_meta = m\<rparr>],
                       None)))"

section \<open>Crawl controller and pagination walker\<close>

text \<open>
  \<^verbatim>\<open>
  def _get_single_result_details_summary_url(self, result, response):
      return response.urljoin(result.css("a::attr(href)").get())

  def _get_single_result_details_further_information_url(self, result, response):
      return self._get_single_result_details_summary_url(result, response).replace(
          "activeTab=summary", "activeTab=details")
  \<close>
\<close>

definition get_single_result_details_summary_url :: "result \<Rightarrow> response \<Rightarrow> string" where
  "get_single_result_details_summary_url result response = urljoin response (href result)"

definition get_single_result_details_further_information_url ::
    "result \<Rightarrow> response \<Rightarrow> string" where
  "get_single_result_details_further_information_url result response =
     str_replace (get_single_result_details_summary_url result response)
       ''activeTab=summary'' ''activeTab=details''"

text \<open>
  \<^verbatim>\<open>
  def _parse_single_result(self, result, response):
      details_summary_url = self._get_single_result_details_summary_url(result, response)
      details_further_information_url = self._get_single_result_details_further_information_url(result, response)
      keyval = details_summary_url.split("keyVal=")[1].split("&")[0] or ""
      if keyval == "":
          self.logger.error(f"Failed to parse keyval from {details_summary_url}, can't continue")
          return
      if self.should_scrape_application:
          self.applications_scraped += 1
          meta = {"keyval": keyval, "original_response": response, "limit": self.limit,
                  "applications_scraped": self.applications_scraped}
          yield scrapy.Request(details_summary_url, callback=self.parse_details_summary_tab,
                               meta=meta, errback=self.handle_error)
          yield scrapy.Request(details_further_information_url,
                               callback=self.parse_details_further_information_tab,
                               meta=meta, errback=self.handle_error)
  \<close>
  The generator changes the spider's counter, so the model returns the spider too.
  \<open>keyval_of\<close> is the expression \<^verbatim>\<open>details_summary_url.split("keyVal=")[1].split("&")[0]\<close>
  (\<^verbatim>\<open>or ""\<close> leaves a string as it is).
\<close>

definition keyval_of :: "string \<Rightarrow> error + string" where
  "keyval_of details_summary_url =
     (case index (str_split details_summary_url ''keyVal='') 1 of
        Inl e \<Rightarrow> Inl e
      | Inr after_key \<Rightarrow> index (str_split after_key ''&'') 0)"

definition parse_single_result ::
    "IdoxSpider \<Rightarrow> result \<Rightarrow> response
       \<Rightarrow> IdoxSpider \<times> log list \<times> spider_output list \<times> error option" where
  "parse_single_result self result response =
     (let details_summary_url = get_single_result_details_summary_url result response;
          details_further_information_url =
            get_single_result_details_further_information_url result response
      in case keyval_of details_summary_url of
           Inl e \<Rightarrow> (self, [], [], Some e)
         | Inr keyval \<Rightarrow>
             (if keyval = []
              then (self,
                        [(ERROR, ''Failed to parse keyval from '' @ details_summary_url
                                 @ '', can't continue'')],
                        [], None)
                  else if should_scrape_application self
                  then (let self' = self\<lparr>applications_scraped := applications_scraped self + 1\<rparr>;
                            m = \<lparr>meta_keyval = Some keyval,
                                 meta_original_response = Some (url response),
                                 meta_limit = Some (limit self'),
                                 meta_applications_scraped = Some (applications_scraped self'),
                                 meta_details_summary = None,
                                 meta_details_further_information = None\<rparr>
                        in (self', [],
                            [Request \<lparr>request_url = details_summary_url, formdata = None,
                               callback = cb_parse_details_summary_tab, request_meta = m\<rparr>,
                             Request \<lparr>request_url = details_further_information_url,
                               formdata = None,
                               callback = cb_parse_details_further_information_tab,
                               request_meta = m\<rparr>],
                            None))
                  else (self, [], [], None)))"

text \<open>
  The loop over the rows of \<^verbatim>\<open>parse_results\<close>:
  \<^verbatim>\<open>
  for result in search_results:
      self.logger.info(f"heading into {result.css("a::attr(href)").get()}")
      if self.applications_scraped >= self.limit:
          self.logger.info(f"Reached the limit of {self.limit} applications")
          return
      yield from self._parse_single_result(result, response)
  \<close>
  It ends when the rows are exhausted, at the \<^verbatim>\<open>return\<close>, or with an exception.
\<close>

datatype loop_end = Exhausted | Returned | Raised error

fun for_results ::
    "IdoxSpider \<Rightarrow> response \<Rightarrow> result list
       \<Rightarrow> IdoxSpider \<times> log list \<times> spider_output list \<times> loop_end" where
  "for_results self response [] = (self, [], [], Exhausted)"
| "for_results self response (result # rest) =
     (let heading = (INFO, ''heading into '' @ str_of_opt (href result))
      in if applications_scraped self \<ge> limit self
         then (self,
               [heading,
                (INFO, ''Reached the limit of '' @ str_of_int (limit self) @ '' applications'')],
               [], Returned)
         else (case parse_single_result self result response of
                 (self', logs, outs, Some e) \<Rightarrow> (self', heading # logs, outs, Raised e)
               | (self', logs, outs, None) \<Rightarrow>
                   (case for_results self' response rest of
                      (self'', logs', outs', ending) \<Rightarrow>
                        (self'', heading # logs @ logs', outs @ outs', ending))))"

text \<open>
  The message banner of \<^verbatim>\<open>parse_results\<close>:
  \<^verbatim>\<open>
  message_box = response.css(".messagebox")
  if len(message_box) > 0:
      if "No results found" in message_box[0].extract():
          self.logger.info(f"No applications found on {response.url}")
          return
      if "Too many results found" in message_box[0].extract():
          self.logger.error(f"Too many results found on {response.url}. Make the search more specific.")
          return
  \<close>
  The result is the line logged before the \<^verbatim>\<open>return\<close>, or \<open>None\<close> when the function
  goes on.
\<close>

definition message_box_return :: "response \<Rightarrow> log option" where
  "message_box_return response =
     (case messagebox response of
        [] \<Rightarrow> None
      | first # _ \<Rightarrow>
          if str_contains first ''No results found''
          then Some (INFO, ''No applications found on '' @ url response)
          else if str_contains first ''Too many results found''
          then Some (ERROR, ''Too many results found on '' @ url response
                            @ ''. Make the search more specific.'')
          else None)"

text \<open>
  \<^verbatim>\<open>
  def parse_results(self, response):
      ... (the message banner)
      application_tools = response.css("#applicationTools")
      if len(application_tools) > 0:
          self.logger.info(f"Only one application found on {response.url}")
          yield from self.parse_details_summary_tab(response)
          return
      search_results = response.css("#searchresults")
      if len(search_results) == 0:
          self.logger.info(f"No applications found on {response.url}")
          return
      search_results = search_results[0].css(".searchresult")
      self.logger.info(f"Found {len(search_results)} applications on {response.url}")
      ... (the loop over the rows)
      next_page = response.css(".next::attr(href)").get()
      if next_page:
          self.logger.info(f"Found next page at {next_page}")
          next_page_url = response.urljoin(next_page)
          yield scrapy.Request(next_page_url, callback=self.parse_results)
  \<close>
\<close>

definition parse_results ::
    "IdoxSpider \<Rightarrow> response
       \<Rightarrow> IdoxSpider \<times> log list \<times> spider_output list \<times> error option" where
  "parse_results self response =
     (case message_box_return response of
        Some line \<Rightarrow> (self, [line], [], None)
      | None \<Rightarrow>
          if applicationTools response \<noteq> []
          then (case parse_details_summary_tab self response of
                  (logs, outs, err) \<Rightarrow>
                    (self, (INFO, ''Only one application found on '' @ url response) # logs,
                     outs, err))
          else (case searchresults response of
                  [] \<Rightarrow> (self, [(INFO, ''No applications found on '' @ url response)], [], None)
                | search_results # _ \<Rightarrow>
                    (let found = (INFO, ''Found '' @ str_of_int (int (length search_results))
                                        @ '' applications on '' @ url response)
                     in case for_results self response search_results of
                          (self', logs, outs, Returned) \<Rightarrow> (self', found # logs, outs, None)
                        | (self', logs, outs, Raised e) \<Rightarrow> (self', found # logs, outs, Some e)
                        | (self', logs, outs, Exhausted) \<Rightarrow>
                            (case next_href response of
                               None \<Rightarrow> (self', found # logs, outs, None)
                             | Some next_page \<Rightarrow>
                                 if next_page = [] then (self', found # logs, outs, None)
                                 else (self',
                                       found # logs
                                       @ [(INFO, ''Found next page at '' @ next_page)],
                                       outs
                                       @ [Request
                                            \<lparr>request_url = urljoin response (Some next_page),
                                             formdata = None, callback = cb_parse_results,
                                             request_meta = empty_meta\<rparr>],
                                       None)))))"

text \<open>
  \<^verbatim>\<open>
  def handle_error(self, failure):
      self.logger.error(f"Error processing request {failure.request}")
      self.logger.error(f"Error details: {failure.value}")
  \<close>
  A failure is the printed form of its request and of its value.
\<close>

record failure =
  failure_request :: string
  failure_value :: string

definition handle_error :: "IdoxSpider \<Rightarrow> failure \<Rightarrow> log list" where
  "handle_error self fl =
     [(ERROR, ''Error processing request '' @ failure_request fl),
      (ERROR, ''Error details: '' @ failure_value fl)]"

section \<open>The fetch engine\<close>

text \<open>
  Modelled from the spec: the engine that fetches the requests and calls the
  callbacks is an external collaborator (Scrapy), not among the sources. The spec
  gives its contract: a fetch is asynchronous and completes in any order, a callback
  runs to completion on the response, a failed fetch goes to the request's error
  callback, and an exception in a callback is reported and ends that branch only.
  The model keeps the pending requests in a list; \<open>web\<close> answers a request with a
  response or a failure; the response's \<open>meta\<close> is the request's (a request copies the
  dictionary it is given, so the two requests of one application do not share it).
  The order in which the pending fetches complete is a parameter: the oldest first
  or the newest first. The items of a generator that a callback yields are counted
  as emitted records, and no request is dropped as a duplicate: both choices favour
  the spider. The run is bounded by \<open>fuel\<close>; \<open>None\<close> means the bound was reached.
\<close>

datatype completion_order = Oldest_first | Newest_first

fun take_next :: "completion_order \<Rightarrow> request \<Rightarrow> request list \<Rightarrow> request \<times> request list" where
  "take_next Oldest_first r rs = (r, rs)"
| "take_next Newest_first r rs = (last (r # rs), butlast (r # rs))"

fun dispatch ::
    "callback \<Rightarrow> IdoxSpider \<Rightarrow> response
       \<Rightarrow> IdoxSpider \<times> log list \<times> spider_output list \<times> error option" where
  "dispatch cb_submit_form self response =
     (case submit_form self response of (logs, outs, err) \<Rightarrow> (self, logs, outs, err))"
| "dispatch cb_parse_results self response = parse_results self response"
| "dispatch cb_parse_details_summary_tab self response =
     (case parse_details_summary_tab self response of
        (logs, outs, err) \<Rightarrow> (self, logs, outs, err))"
| "dispatch cb_parse_details_further_information_tab self response =
     (case parse_details_further_information_tab self response of
        (logs, outs, err) \<Rightarrow> (self, logs, outs, err))"

fun new_requests :: "spider_output list \<Rightarrow> request list" where
  "new_requests [] = []"
| "new_requests (Request r # outs) = r # new_requests outs"
| "new_requests (Generator g # outs) = new_requests outs"

fun emitted :: "spider_output list \<Rightarrow> PlanningApplicationItem list" where
  "emitted [] = []"
| "emitted (Request r # outs) = emitted outs"
| "emitted (Generator g # outs) = fst g @ emitted outs"

record crawl_result =
  records :: "PlanningApplicationItem list"
  logged :: "log list"
  raised :: "error list"
  spider :: IdoxSpider

fun crawl ::
    "nat \<Rightarrow> (request \<Rightarrow> failure + response) \<Rightarrow> completion_order \<Rightarrow> IdoxSpider
       \<Rightarrow> request list \<Rightarrow> crawl_result option" where
  "crawl fuel web ord self [] =
     Some \<lparr>records = [], logged = [], raised = [], spider = self\<rparr>"
| "crawl 0 web ord self (r # rs) = None"
| "crawl (Suc fuel) web ord self (r # rs) =
     (case take_next ord r rs of
        (req, pending) \<Rightarrow>
          (case web req of
             Inl fl \<Rightarrow>
               map_option (\<lambda>res. res\<lparr>logged := handle_error self fl @ logged res\<rparr>)
                 (crawl fuel web ord self pending)
           | Inr page \<Rightarrow>
               (case dispatch (callback req) self (page\<lparr>meta := request_meta req\<rparr>) of
                  (self', logs, outs, err) \<Rightarrow>
                    map_option
                      (\<lambda>res. res\<lparr>records := emitted outs @ records res,
                                   logged := logs @ logged res,
                                   raised := (case err of None \<Rightarrow> [] | Some e \<Rightarrow> [e])
                                             @ raised res\<rparr>)
                      (crawl fuel web ord self' (pending @ new_requests outs)))))"

section \<open>Notions used to state the properties\<close>

text \<open>A row has a header cell whose text contains the label.\<close>

definition has_header :: "string \<Rightarrow> row \<Rightarrow> bool" where
  "has_header column_name r = list_ex (th_contains column_name) r"

text \<open>The number of lines logged at the error level.\<close>

definition errors_logged :: "log list \<Rightarrow> nat" where
  "errors_logged logs = length (filter (\<lambda>l. fst l = ERROR) logs)"

text \<open>
  A row gives the lookup no text: it has no header cell containing the label, or no
  value cell after the first such header has a text.
\<close>

definition td_without_text :: "cell \<Rightarrow> bool" where
  "td_without_text c = (case c of Th ts \<Rightarrow> True | Td ts \<Rightarrow> ts = [])"

definition no_value_text :: "string \<Rightarrow> row \<Rightarrow> bool" where
  "no_value_text column_name r =
     (case dropWhile (\<lambda>c. \<not> th_contains column_name c) r of
        [] \<Rightarrow> True
      | header # following \<Rightarrow> list_all td_without_text following)"

section \<open>Example pages\<close>

text \<open>
  A spider for the site \<^verbatim>\<open>pa.example.org\<close> with a scrape limit of two, and a page of
  that site with nothing on it; the pages of the examples below are variants of it.
\<close>

definition example_spider :: IdoxSpider where
  "example_spider =
     \<lparr>name = ''example'', start_url = ''https://pa.example.org/search.do?action=advanced'',
      start_date = \<lparr>year = 2024, month = 11, day = 1\<rparr>,
      end_date = \<lparr>year = 2025, month = 3, day = 15\<rparr>,
      filter_status = ALL_STATUS, limit = 2, applications_scraped = 0,
      should_scrape_application = True\<rparr>"

definition example_urljoin :: "string option \<Rightarrow> string" where
  "example_urljoin h =
     (case h of None \<Rightarrow> ''https://pa.example.org/results.do''
      | Some path \<Rightarrow> ''https://pa.example.org'' @ path)"

definition blank_page :: response where
  "blank_page =
     \<lparr>url = ''https://pa.example.org/results.do'', meta = empty_meta,
      urljoin = example_urljoin, csrf = None,
      form_url = ''https://pa.example.org/doSearch.do'', messagebox = [],
      applicationTools = [], searchresults = [], next_href = None,
      simpleDetailsTable = [], applicationDetails = []\<rparr>"

text \<open>Listing pages: a banner for too many results; three rows and a next page.\<close>

definition too_many_page :: response where
  "too_many_page = blank_page
     \<lparr>messagebox := [''<div class=messagebox><li>Too many results found. Please enter some more parameters.</li></div>'']\<rparr>"

definition three_row_page :: response where
  "three_row_page = blank_page
     \<lparr>searchresults :=
        [[\<lparr>href = Some ''/applicationDetails.do?keyVal=AAA111&activeTab=summary''\<rparr>,
          \<lparr>href = Some ''/applicationDetails.do?keyVal=BBB222&activeTab=summary''\<rparr>,
          \<lparr>href = Some ''/applicationDetails.do?keyVal=CCC333&activeTab=summary''\<rparr>]],
      next_href := Some ''/pagedSearchResults.do?action=page&searchCriteria.page=2''\<rparr>"

text \<open>
  Two rows and a next page, the first row's link with no \<^verbatim>\<open>keyVal\<close> parameter, or
  with an empty one.
\<close>

definition keyless_row_page :: response where
  "keyless_row_page = blank_page
     \<lparr>searchresults :=
        [[\<lparr>href = Some ''/applicationDetails.do?activeTab=summary''\<rparr>,
          \<lparr>href = Some ''/applicationDetails.do?keyVal=BBB222&activeTab=summary''\<rparr>]],
      next_href := Some ''/pagedSearchResults.do?action=page&searchCriteria.page=2''\<rparr>"

definition empty_key_row_page :: response where
  "empty_key_row_page = blank_page
     \<lparr>searchresults :=
        [[\<lparr>href = Some ''/applicationDetails.do?keyVal=&activeTab=summary''\<rparr>,
          \<lparr>href = Some ''/applicationDetails.do?keyVal=BBB222&activeTab=summary''\<rparr>]],
      next_href := Some ''/pagedSearchResults.do?action=page&searchCriteria.page=2''\<rparr>"

text \<open>One row: the application \<^verbatim>\<open>AAA111\<close>.\<close>

definition one_row_page :: response where
  "one_row_page = blank_page
     \<lparr>searchresults :=
        [[\<lparr>href = Some ''/applicationDetails.do?keyVal=AAA111&activeTab=summary''\<rparr>]]\<rparr>"

text \<open>
  The two detail pages of the application \<^verbatim>\<open>AAA111\<close>: the summary tab holds the
  table \<^verbatim>\<open>#simpleDetailsTable\<close>, the further-information tab holds the table
  \<^verbatim>\<open>#applicationDetails\<close>. \<open>example_web\<close> serves the two pages and fails on any
  other request.
\<close>

definition summary_page :: response where
  "summary_page = blank_page
     \<lparr>url := ''https://pa.example.org/applicationDetails.do?keyVal=AAA111&activeTab=summary'',
      simpleDetailsTable :=
        [[[Th [''Reference''], Td [''24/1234/FUL'']],
          [Th [''Application Received''], Td [''Mon 01 Jan 2024'']],
          [Th [''Application Validated''], Td [''Tue 02 Jan 2024'']],
          [Th [''Address''], Td [''1 High Street'']],
          [Th [''Proposal''], Td [''Single storey rear extension'']]]]\<rparr>"

definition details_page :: response where
  "details_page = blank_page
     \<lparr>url := ''https://pa.example.org/applicationDetails.do?keyVal=AAA111&activeTab=details'',
      applicationDetails :=
        [[[Th [''Application Type''], Td [''Full Application'']],
          [Th [''Case Officer''], Td [''A N Officer'']],
          [Th [''Parish''], Td [''Anytown'']]]]\<rparr>"

definition example_web :: "request \<Rightarrow> failure + response" where
  "example_web req =
     (if request_url req = url summary_page then Inr summary_page
      else if request_url req = url details_page then Inr details_page
      else Inl \<lparr>failure_request = ''<GET '' @ request_url req @ ''>'',
                failure_value = ''404''\<rparr>)"



text \<open>
  A configuration that supplies none of the search criteria, and one whose start date
  is after its end date.
\<close>

definition example_config :: config where
  "example_config =
     \<lparr>cfg_name = ''example'', cfg_start_url = ''https://pa.example.org/search.do?action=advanced'',
      cfg_limit = 2, cfg_applications_scraped = 0, cfg_should_scrape_application = True,
      cfg_start_date = None, cfg_end_date = None, cfg_filter_status = None\<rparr>"

definition reversed_config :: config where
  "reversed_config = example_config
     \<lparr>cfg_start_date := Some (DateStr ''2025-02-01''),
      cfg_end_date := Some (DateStr ''2025-01-01'')\<rparr>"

text \<open>
  The two detail requests that the row of \<open>one_row_page\<close> spawns, each with its own copy
  of the row's \<^verbatim>\<open>meta\<close>.
\<close>

definition row_meta :: meta_dict where
  "row_meta =
     \<lparr>meta_keyval = Some ''AAA111'',
      meta_original_response = Some ''https://pa.example.org/results.do'',
      meta_limit = Some 2, meta_applications_scraped = Some 1,
      meta_details_summary = None, meta_details_further_information = None\<rparr>"

definition summary_request :: request where
  "summary_request =
     \<lparr>request_url =
        ''https://pa.example.org/applicationDetails.do?keyVal=AAA111&activeTab=summary'',
      formdata = None, callback = cb_parse_details_summary_tab, request_meta = row_meta\<rparr>"

definition details_request :: request where
  "details_request =
     \<lparr>request_url =
        ''https://pa.example.org/applicationDetails.do?keyVal=AAA111&activeTab=details'',
      formdata = None, callback = cb_parse_details_further_information_tab,
      request_meta = row_meta\<rparr>"


section \<open>Properties of the field extractor\<close>

lemma row_texts_no_header: "\<not> has_header l r \<Longrightarrow> row_texts l r = []"
  by (induction r) (auto simp: has_header_def)

lemma table_texts_no_header:
  "\<not> list_ex (has_header l) t \<Longrightarrow> concat (map (row_texts l) t) = []"
  by (induction t) (auto simp: row_texts_no_header)

lemma row_texts_skip: "\<not> has_header l pre \<Longrightarrow> row_texts l (pre @ cs) = row_texts l cs"
  by (induction pre) (auto simp: has_header_def)

lemma lookup_no_header:
  "\<not> list_ex (has_header l) t \<Longrightarrow> get_horizontal_table_value t l = None"
  by (simp add: get_horizontal_table_value_def table_texts_no_header)

lemma following_td_texts_none:
  "list_all td_without_text cs \<Longrightarrow> following_td_texts cs = []"
  by (induction cs rule: following_td_texts.induct) (auto simp: td_without_text_def)

lemma following_td_texts_first:
  "list_all td_without_text mid
   \<Longrightarrow> following_td_texts (mid @ Td (v # vs) # post) = v # vs @ following_td_texts post"
  by (induction mid rule: following_td_texts.induct) (auto simp: td_without_text_def)

lemma row_texts_no_value_text: "no_value_text l r \<Longrightarrow> row_texts l r = []"
  by (induction r) (auto simp: no_value_text_def following_td_texts_none)

lemma table_texts_no_value_text:
  "list_all (no_value_text l) t \<Longrightarrow> concat (map (row_texts l) t) = []"
  by (induction t) (auto simp: row_texts_no_value_text)

lemma no_header_no_value_text: "\<not> has_header l r \<Longrightarrow> no_value_text l r"
  by (induction r) (auto simp: no_value_text_def has_header_def)

text \<open>
  The lookup does not stop at the value cell next to the header. Where that cell has
  no text, the text of a later cell of the row is returned, or that of a later row
  whose header contains the label too; a cell of blanks gives the empty string, not
  an absent value.
\<close>

theorem field_extractor_counterexample:
  "get_horizontal_table_value [[Th [''Reference''], Td [], Td [''X'']]] ''Reference''
     = Some ''X''
   \<and> get_horizontal_table_value
        [[Th [''Reference''], Td []], [Th [''Alternative Reference''], Td [''ALT/1'']]]
        ''Reference''
     = Some ''ALT/1''
   \<and> get_horizontal_table_value [[Th [''Reference''], Td [''  '']]] ''Reference'' = Some []"
  by code_simp

text \<open>
  C7, as the code has it. The lookup takes the header cells whose text contains the
  label (a case-sensitive substring match) and returns the first text of the value
  cells that follow such a header in its row, trimmed, from the first row that has
  one:
  \<^item> when no row has such a text (\<open>no_value_text\<close>), which is so when no header cell
    contains the label, the result is absent;
  \<^item> when the rows before give no text and the first matching header of the next row
    is followed, after cells without text, by a value cell whose first text is \<open>v\<close>,
    the result is \<open>v\<close> trimmed (absent for an empty \<open>v\<close>), whatever follows;
  \<^item> for the row \<^verbatim>\<open><th>Reference</th><td>24/1234/FUL</td>\<close> and the label
    \<^verbatim>\<open>Reference\<close> the result is \<^verbatim>\<open>24/1234/FUL\<close>, and the label \<^verbatim>\<open>reference\<close>
    finds nothing.
\<close>

theorem field_extractor_first_text:
  "(list_all (no_value_text label) table \<longrightarrow> get_horizontal_table_value table label = None)
   \<and> (\<not> list_ex (has_header label) table \<longrightarrow> list_all (no_value_text label) table)
   \<and> (list_all (no_value_text label) before \<and> \<not> has_header label pre
        \<and> th_contains label (Th hs) \<and> list_all td_without_text mid
      \<longrightarrow> get_horizontal_table_value
            (before @ (pre @ Th hs # mid @ Td (v # vs) # post) # after) label
          = (if v = [] then None else Some (str_strip v)))
   \<and> get_horizontal_table_value [[Th [''Reference''], Td [''24/1234/FUL'']]] ''Reference''
       = Some ''24/1234/FUL''
   \<and> get_horizontal_table_value [[Th [''Reference''], Td [''24/1234/FUL'']]] ''reference''
       = None"
proof (intro conjI impI)
  assume "list_all (no_value_text label) table"
  then show "get_horizontal_table_value table label = None"
    by (simp add: get_horizontal_table_value_def table_texts_no_value_text)
next
  assume "\<not> list_ex (has_header label) table"
  then show "list_all (no_value_text label) table"
    by (induction table) (auto simp: no_header_no_value_text)
next
  assume "list_all (no_value_text label) before \<and> \<not> has_header label pre
        \<and> th_contains label (Th hs) \<and> list_all td_without_text mid"
  then show "get_horizontal_table_value
            (before @ (pre @ Th hs # mid @ Td (v # vs) # post) # after) label
          = (if v = [] then None else Some (str_strip v))"
    by (simp add: get_horizontal_table_value_def table_texts_no_value_text row_texts_skip
          following_td_texts_first)
next
  show "get_horizontal_table_value [[Th [''Reference''], Td [''24/1234/FUL'']]] ''Reference''
       = Some ''24/1234/FUL''"
    by code_simp
next
  show "get_horizontal_table_value [[Th [''Reference''], Td [''24/1234/FUL'']]] ''reference''
       = None"
    by code_simp
qed

text \<open>
  A table of three rows looked up under the label \<^verbatim>\<open>Address\<close>: the value next to
  \<^verbatim>\<open>Site Address\<close> has no text and the cell after it has.
\<close>

theorem field_extractor_first_text_witness:
  "list_all (no_value_text ''Address'')
     [[Th [''Reference''], Td [''24/1234/FUL'']], [Th [''Site Address''], Td []]]
   \<and> get_horizontal_table_value
        [[Th [''Reference''], Td [''24/1234/FUL'']], [Th [''Site Address''], Td []]] ''Address''
       = None
   \<and> \<not> list_ex (has_header ''Address'') [[Th [''Reference''], Td [''24/1234/FUL'']]]
   \<and> th_contains ''Address'' (Th [''Site Address''])
   \<and> get_horizontal_table_value
        [[Th [''Reference''], Td [''24/1234/FUL'']],
         [Th [''Site Address''], Td [], Td ['' 1 High Street '']],
         [Th [''Applicant Address''], Td [''2 Low Road'']]] ''Address''
       = Some ''1 High Street''"
proof -
  let ?ref = "[Th [''Reference''], Td [''24/1234/FUL'']]"
  have h0: "list_all (no_value_text ''Address'') [?ref, [Th [''Site Address''], Td []]]"
    by code_simp
  have h1: "\<not> list_ex (has_header ''Address'') [?ref]"
    by code_simp
  have h2: "\<not> has_header ''Address'' []"
    by code_simp
  have h3: "th_contains ''Address'' (Th [''Site Address''])"
    by code_simp
  have h4: "list_all td_without_text [Td []]"
    by code_simp
  have s: "str_strip '' 1 High Street '' = ''1 High Street''"
    by code_simp
  from field_extractor_first_text
         [where label = "''Address''" and table = "[?ref, [Th [''Site Address''], Td []]]"] h0
  have c1: "get_horizontal_table_value [?ref, [Th [''Site Address''], Td []]] ''Address'' = None"
    by blast
  from field_extractor_first_text [where label = "''Address''" and table = "[?ref]"] h1
  have h5: "list_all (no_value_text ''Address'') [?ref]"
    by blast
  from field_extractor_first_text
         [where label = "''Address''" and before = "[?ref]" and pre = "[]"
            and hs = "[''Site Address'']" and mid = "[Td []]" and v = "'' 1 High Street ''"
            and vs = "[]" and post = "[]"
            and after = "[[Th [''Applicant Address''], Td [''2 Low Road'']]]"]
       h5 h2 h3 h4
  have c2: "get_horizontal_table_value
              ([?ref] @ ([] @ Th [''Site Address''] # [Td []] @ Td ['' 1 High Street ''] # [])
                 # [[Th [''Applicant Address''], Td [''2 Low Road'']]]) ''Address''
              = (if '' 1 High Street '' = [] then None else Some (str_strip '' 1 High Street ''))"
    by blast
  from h0 c1 h1 h3 c2 s show ?thesis
    by simp
qed

section \<open>Properties of the search query builder\<close>

text \<open>
  C5. The form data that \<^verbatim>\<open>submit_form\<close> builds, and sends in its one request, has
  the field \<^verbatim>\<open>caseStatus\<close> exactly when the status filter is not \<^verbatim>\<open>ALL\<close>, and its
  value is then the filter's display string.
\<close>

theorem submit_form_status_field:
  "map_of (submit_form_formdata self response) ''caseStatus''
     = (if filter_status self = ALL_STATUS then None
        else Some (Some (status_value (filter_status self))))
   \<and> map formdata (new_requests (fst (snd (submit_form self response))))
     = [Some (submit_form_formdata self response)]"
  by (simp add: submit_form_formdata_def submit_form_def)

section \<open>Properties of the pagination walker\<close>

text \<open>
  C6. On a listing page whose message banner (the first \<^verbatim>\<open>.messagebox\<close> element)
  says that too many results were found, and does not say that no results were found
  (the check that comes first), \<^verbatim>\<open>parse_results\<close> yields nothing, so no detail
  request and no further page, logs one line, at the error level, leaves the spider as
  it was and raises nothing.
\<close>

theorem too_many_results_banner:
  assumes "messagebox response = first # others"
      and "str_contains first ''Too many results found''"
      and "\<not> str_contains first ''No results found''"
  shows "parse_results self response =
           (self,
            [(ERROR, ''Too many results found on '' @ url response
                     @ ''. Make the search more specific.'')],
            [], None)
         \<and> errors_logged (fst (snd (parse_results self response))) = 1
         \<and> new_requests (fst (snd (snd (parse_results self response)))) = []"
  using assms by (simp add: parse_results_def message_box_return_def errors_logged_def)

text \<open>The banner of the example page.\<close>

theorem too_many_results_banner_witness:
  "str_contains ''<div class=messagebox><li>Too many results found. Please enter some more parameters.</li></div>'' ''Too many results found''
   \<and> \<not> str_contains ''<div class=messagebox><li>Too many results found. Please enter some more parameters.</li></div>'' ''No results found''
   \<and> parse_results example_spider too_many_page =
           (example_spider,
            [(ERROR, ''Too many results found on https://pa.example.org/results.do. Make the search more specific.'')],
            [], None)
   \<and> errors_logged (fst (snd (parse_results example_spider too_many_page))) = 1
   \<and> new_requests (fst (snd (snd (parse_results example_spider too_many_page)))) = []"
proof -
  have m: "messagebox too_many_page = [''<div class=messagebox><li>Too many results found. Please enter some more parameters.</li></div>'']"
    by (simp add: too_many_page_def blank_page_def)
  have a: "str_contains ''<div class=messagebox><li>Too many results found. Please enter some more parameters.</li></div>'' ''Too many results found''"
    by code_simp
  have b: "\<not> str_contains ''<div class=messagebox><li>Too many results found. Please enter some more parameters.</li></div>'' ''No results found''"
    by code_simp
  have u: "url too_many_page = ''https://pa.example.org/results.do''"
    by (simp add: too_many_page_def blank_page_def)
  from too_many_results_banner [OF m a b, of example_spider] a b u show ?thesis
    by (simp add: errors_logged_def)
qed

text \<open>
  C2. A listing page with three rows, under a scrape limit of two with nothing scraped
  yet, the first two rows carrying a key: \<^verbatim>\<open>parse_results\<close> yields the pair of
  detail requests of the first row and of the second row and nothing else. The
  counter ends at two; at the third row the limit is logged and the function returns,
  so that row is not handed to \<^verbatim>\<open>_parse_single_result\<close> and the next page is not
  requested, whatever the page's next link is.
\<close>

theorem scrape_limit_stops_listing:
  assumes "message_box_return response = None"
      and "applicationTools response = []"
      and "searchresults response = [r1, r2, r3] # others"
      and "limit self = 2" and "applications_scraped self = 0"
      and "should_scrape_application self"
      and "keyval_of (get_single_result_details_summary_url r1 response) = Inr k1" and "k1 \<noteq> []"
      and "keyval_of (get_single_result_details_summary_url r2 response) = Inr k2" and "k2 \<noteq> []"
  shows "parse_results self response =
           (self\<lparr>applications_scraped := 2\<rparr>,
            [(INFO, ''Found 3 applications on '' @ url response),
             (INFO, ''heading into '' @ str_of_opt (href r1)),
             (INFO, ''heading into '' @ str_of_opt (href r2)),
             (INFO, ''heading into '' @ str_of_opt (href r3)),
             (INFO, ''Reached the limit of 2 applications'')],
            [Request \<lparr>request_url = get_single_result_details_summary_url r1 response,
               formdata = None, callback = cb_parse_details_summary_tab,
               request_meta = \<lparr>meta_keyval = Some k1,
                 meta_original_response = Some (url response), meta_limit = Some 2,
                 meta_applications_scraped = Some 1, meta_details_summary = None,
                 meta_details_further_information = None\<rparr>\<rparr>,
             Request \<lparr>request_url = get_single_result_details_further_information_url r1 response,
               formdata = None, callback = cb_parse_details_further_information_tab,
               request_meta = \<lparr>meta_keyval = Some k1,
                 meta_original_response = Some (url response), meta_limit = Some 2,
                 meta_applications_scraped = Some 1, meta_details_summary = None,
                 meta_details_further_information = None\<rparr>\<rparr>,
             Request \<lparr>request_url = get_single_result_details_summary_url r2 response,
               formdata = None, callback = cb_parse_details_summary_tab,
               request_meta = \<lparr>meta_keyval = Some k2,
                 meta_original_response = Some (url response), meta_limit = Some 2,
                 meta_applications_scraped = Some 2, meta_details_summary = None,
                 meta_details_further_information = None\<rparr>\<rparr>,
             Request \<lparr>request_url = get_single_result_details_further_information_url r2 response,
               formdata = None, callback = cb_parse_details_further_information_tab,
               request_meta = \<lparr>meta_keyval = Some k2,
                 meta_original_response = Some (url response), meta_limit = Some 2,
                 meta_applications_scraped = Some 2, meta_details_summary = None,
                 meta_details_further_information = None\<rparr>\<rparr>],
            None)"
proof -
  have three: "str_of_int 3 = ''3''"
    by code_simp
  have two: "str_of_int 2 = ''2''"
    by code_simp
  let ?s1 = "self\<lparr>applications_scraped := 1\<rparr>"
  let ?s2 = "self\<lparr>applications_scraped := 2\<rparr>"
  have row3: "for_results ?s2 response [r3] =
      (?s2, [(INFO, ''heading into '' @ str_of_opt (href r3)),
             (INFO, ''Reached the limit of 2 applications'')], [], Returned)"
    using assms(4) by (simp add: two)
  have p2: "parse_single_result ?s1 r2 response =
      (?s2, [],
       [Request \<lparr>request_url = get_single_result_details_summary_url r2 response,
               formdata = None, callback = cb_parse_details_summary_tab,
               request_meta = \<lparr>meta_keyval = Some k2,
                 meta_original_response = Some (url response), meta_limit = Some 2,
                 meta_applications_scraped = Some 2, meta_details_summary = None,
                 meta_details_further_information = None\<rparr>\<rparr>,
        Request \<lparr>request_url = get_single_result_details_further_information_url r2 response,
               formdata = None, callback = cb_parse_details_further_information_tab,
               request_meta = \<lparr>meta_keyval = Some k2,
                 meta_original_response = Some (url response), meta_limit = Some 2,
                 meta_applications_scraped = Some 2, meta_details_summary = None,
                 meta_details_further_information = None\<rparr>\<rparr>], None)"
    using assms(4,6,9,10) by (simp add: parse_single_result_def Let_def)
  have p1: "parse_single_result self r1 response =
      (?s1, [],
       [Request \<lparr>request_url = get_single_result_details_summary_url r1 response,
               formdata = None, callback = cb_parse_details_summary_tab,
               request_meta = \<lparr>meta_keyval = Some k1,
                 meta_original_response = Some (url response), meta_limit = Some 2,
                 meta_applications_scraped = Some 1, meta_details_summary = None,
                 meta_details_further_information = None\<rparr>\<rparr>,
        Request \<lparr>request_url = get_single_result_details_further_information_url r1 response,
               formdata = None, callback = cb_parse_details_further_information_tab,
               request_meta = \<lparr>meta_keyval = Some k1,
                 meta_original_response = Some (url response), meta_limit = Some 2,
                 meta_applications_scraped = Some 1, meta_details_summary = None,
                 meta_details_further_information = None\<rparr>\<rparr>], None)"
    using assms(4,5,6,7,8) by (simp add: parse_single_result_def Let_def)
  have rows23: "for_results ?s1 response [r2, r3] =
      (?s2, (INFO, ''heading into '' @ str_of_opt (href r2))
            # [(INFO, ''heading into '' @ str_of_opt (href r3)),
               (INFO, ''Reached the limit of 2 applications'')],
       fst (snd (snd (parse_single_result ?s1 r2 response))), Returned)"
    using assms(4) by (simp add: p2 row3 del: for_results.simps(2) add: for_results.simps(2) [of ?s1 response r2 "[r3]"])
  have rows: "for_results self response [r1, r2, r3] =
      (?s2, (INFO, ''heading into '' @ str_of_opt (href r1))
            # (INFO, ''heading into '' @ str_of_opt (href r2))
            # [(INFO, ''heading into '' @ str_of_opt (href r3)),
               (INFO, ''Reached the limit of 2 applications'')],
       fst (snd (snd (parse_single_result self r1 response)))
       @ fst (snd (snd (parse_single_result ?s1 r2 response))), Returned)"
    using assms(4,5) by (simp add: p1 rows23 del: for_results.simps(2) add: for_results.simps(2) [of self response r1 "[r2, r3]"])
  show ?thesis
    using assms(1,2,3) by (simp add: parse_results_def rows p1 p2 three del: for_results.simps)
qed

text \<open>The example page of three rows, which has a next link.\<close>

theorem scrape_limit_stops_listing_witness:
  "limit example_spider = 2 \<and> applications_scraped example_spider = 0
   \<and> map length (searchresults three_row_page) = [3]
   \<and> next_href three_row_page
       = Some ''/pagedSearchResults.do?action=page&searchCriteria.page=2''
   \<and> map (\<lambda>r. (request_url r, callback r))
         (new_requests (fst (snd (snd (parse_results example_spider three_row_page)))))
       = [(''https://pa.example.org/applicationDetails.do?keyVal=AAA111&activeTab=summary'',
           cb_parse_details_summary_tab),
          (''https://pa.example.org/applicationDetails.do?keyVal=AAA111&activeTab=details'',
           cb_parse_details_further_information_tab),
          (''https://pa.example.org/applicationDetails.do?keyVal=BBB222&activeTab=summary'',
           cb_parse_details_summary_tab),
          (''https://pa.example.org/applicationDetails.do?keyVal=BBB222&activeTab=details'',
           cb_parse_details_further_information_tab)]
   \<and> applications_scraped (fst (parse_results example_spider three_row_page)) = 2
   \<and> snd (snd (snd (parse_results example_spider three_row_page))) = None"
proof -
  let ?r1 = "\<lparr>href = Some ''/applicationDetails.do?keyVal=AAA111&activeTab=summary''\<rparr>"
  let ?r2 = "\<lparr>href = Some ''/applicationDetails.do?keyVal=BBB222&activeTab=summary''\<rparr>"
  let ?r3 = "\<lparr>href = Some ''/applicationDetails.do?keyVal=CCC333&activeTab=summary''\<rparr>"
  have a1: "message_box_return three_row_page = None"
    by code_simp
  have a2: "applicationTools three_row_page = []"
    by code_simp
  have a3: "searchresults three_row_page = [?r1, ?r2, ?r3] # []"
    by (simp add: three_row_page_def blank_page_def)
  have a4: "limit example_spider = 2"
    by (simp add: example_spider_def)
  have a5: "applications_scraped example_spider = 0"
    by (simp add: example_spider_def)
  have a6: "should_scrape_application example_spider"
    by (simp add: example_spider_def)
  have a7: "keyval_of (get_single_result_details_summary_url ?r1 three_row_page) = Inr ''AAA111''"
    by code_simp
  have a8: "keyval_of (get_single_result_details_summary_url ?r2 three_row_page) = Inr ''BBB222''"
    by code_simp
  have u1: "get_single_result_details_summary_url ?r1 three_row_page
      = ''https://pa.example.org/applicationDetails.do?keyVal=AAA111&activeTab=summary''"
    by code_simp
  have u2: "get_single_result_details_summary_url ?r2 three_row_page
      = ''https://pa.example.org/applicationDetails.do?keyVal=BBB222&activeTab=summary''"
    by code_simp
  have f1: "get_single_result_details_further_information_url ?r1 three_row_page
      = ''https://pa.example.org/applicationDetails.do?keyVal=AAA111&activeTab=details''"
    by code_simp
  have f2: "get_single_result_details_further_information_url ?r2 three_row_page
      = ''https://pa.example.org/applicationDetails.do?keyVal=BBB222&activeTab=details''"
    by code_simp
  have n: "next_href three_row_page
       = Some ''/pagedSearchResults.do?action=page&searchCriteria.page=2''"
    by (simp add: three_row_page_def blank_page_def)
  have k1: "''AAA111'' \<noteq> []" and k2: "''BBB222'' \<noteq> []"
    by simp_all
  note t = scrape_limit_stops_listing [OF a1 a2 a3 a4 a5 a6 a7 k1 a8 k2]
  show ?thesis
    by (simp add: t a3 a4 a5 n u1 u2 f1 f2)
qed

section \<open>Properties of the detail handlers\<close>

lemma strptime_error: "strptime s f = Inl e \<Longrightarrow> e = ValueError"
  by (auto simp: strptime_def split: option.splits list.splits prod.splits if_splits)

lemma strptime_if_present_error: "strptime_if_present c = Inl e \<Longrightarrow> e = ValueError"
  by (auto simp: strptime_if_present_def split: option.splits if_splits sum.splits dest: strptime_error)

lemma details_summary_of_error: "details_summary_of t = Inl e \<Longrightarrow> e = ValueError"
  by (auto simp: details_summary_of_def split: sum.splits dest: strptime_if_present_error)

text \<open>
  C10. A response without the table \<^verbatim>\<open>#simpleDetailsTable\<close> makes
  \<^verbatim>\<open>parse_details_summary_tab\<close> raise \<^verbatim>\<open>IndexError\<close>, yielding nothing; a response
  without the table \<^verbatim>\<open>#applicationDetails\<close> does the same to
  \<^verbatim>\<open>parse_details_further_information_tab\<close>. With the table present neither raises
  \<^verbatim>\<open>IndexError\<close>, the further-information handler raises nothing at all and
  stores the structure read from the table, and a field whose row is missing from
  the table (here \<^verbatim>\<open>Ward\<close>) is absent in that structure.
\<close>

theorem missing_details_table:
  "(simpleDetailsTable response = []
      \<longrightarrow> parse_details_summary_tab self response
          = ([(INFO, ''Parsing results on '' @ url response @ '' (parse_details_summary_tab)'')],
             [], Some IndexError))
   \<and> (applicationDetails response = []
      \<longrightarrow> parse_details_further_information_tab self response
          = ([(INFO, ''Parsing results on '' @ url response
                     @ '' (parse_details_further_information_tab)'')],
             [], Some IndexError))
   \<and> (simpleDetailsTable response = t # ts
      \<longrightarrow> snd (snd (parse_details_summary_tab self response)) \<noteq> Some IndexError)
   \<and> (applicationDetails response = t # ts
      \<longrightarrow> snd (snd (parse_details_further_information_tab self response)) = None)
   \<and> (applicationDetails response = t # ts \<and> meta_details_summary (meta response) = None
      \<longrightarrow> map request_meta
            (new_requests (fst (snd (parse_details_further_information_tab self response))))
          = [(meta response)\<lparr>meta_details_further_information :=
                              Some (details_further_information_of t)\<rparr>])
   \<and> (\<not> list_ex (has_header ''Ward'') t \<longrightarrow> ward (details_further_information_of t) = None)"
proof (intro conjI impI)
  assume "simpleDetailsTable response = []"
  then show "parse_details_summary_tab self response
          = ([(INFO, ''Parsing results on '' @ url response @ '' (parse_details_summary_tab)'')],
             [], Some IndexError)"
    by (simp add: parse_details_summary_tab_def)
next
  assume "applicationDetails response = []"
  then show "parse_details_further_information_tab self response
          = ([(INFO, ''Parsing results on '' @ url response
                     @ '' (parse_details_further_information_tab)'')],
             [], Some IndexError)"
    by (simp add: parse_details_further_information_tab_def)
next
  assume "simpleDetailsTable response = t # ts"
  then show "snd (snd (parse_details_summary_tab self response)) \<noteq> Some IndexError"
    by (auto simp: parse_details_summary_tab_def create_planning_application_item_def Let_def
          split: sum.splits dest: details_summary_of_error)
next
  assume "applicationDetails response = t # ts"
  then show "snd (snd (parse_details_further_information_tab self response)) = None"
    by (simp add: parse_details_further_information_tab_def
          create_planning_application_item_def Let_def)
next
  assume "applicationDetails response = t # ts \<and> meta_details_summary (meta response) = None"
  then show "map request_meta
            (new_requests (fst (snd (parse_details_further_information_tab self response))))
          = [(meta response)\<lparr>meta_details_further_information :=
                              Some (details_further_information_of t)\<rparr>]"
    by (simp add: parse_details_further_information_tab_def Let_def)
next
  assume "\<not> list_ex (has_header ''Ward'') t"
  then show "ward (details_further_information_of t) = None"
    by (simp add: details_further_information_of_def lookup_no_header)
qed

text \<open>The blank page, and the further-information tab of the example.\<close>

theorem missing_details_table_witness:
  "simpleDetailsTable blank_page = [] \<and> applicationDetails blank_page = []
   \<and> snd (snd (parse_details_summary_tab example_spider blank_page)) = Some IndexError
   \<and> snd (snd (parse_details_further_information_tab example_spider blank_page))
       = Some IndexError
   \<and> \<not> list_ex (has_header ''Ward'') (hd (applicationDetails details_page))
   \<and> snd (snd (parse_details_further_information_tab example_spider details_page)) = None
   \<and> ward (details_further_information_of (hd (applicationDetails details_page))) = None
   \<and> parish (details_further_information_of (hd (applicationDetails details_page)))
       = Some ''Anytown''"
proof -
  let ?t = "[[Th [''Application Type''], Td [''Full Application'']],
             [Th [''Case Officer''], Td [''A N Officer'']],
             [Th [''Parish''], Td [''Anytown'']]]"
  have a1: "simpleDetailsTable blank_page = []" and a2: "applicationDetails blank_page = []"
    by (simp_all add: blank_page_def)
  have d: "applicationDetails details_page = ?t # []"
    by (simp add: details_page_def blank_page_def)
  have w: "\<not> list_ex (has_header ''Ward'') ?t"
    by code_simp
  have p: "parish (details_further_information_of ?t) = Some ''Anytown''"
    by code_simp
  note blank = missing_details_table [where response = blank_page and self = example_spider]
  note det = missing_details_table
    [where response = details_page and self = example_spider and t = ?t and ts = "[]"]
  from blank a1 have c1: "snd (snd (parse_details_summary_tab example_spider blank_page)) = Some IndexError"
    by simp
  from blank a2
  have c2: "snd (snd (parse_details_further_information_tab example_spider blank_page)) = Some IndexError"
    by simp
  from det d have c3: "snd (snd (parse_details_further_information_tab example_spider details_page)) = None"
    by blast
  from det w have c4: "ward (details_further_information_of ?t) = None"
    by blast
  from a1 a2 c1 c2 c3 c4 w p d show ?thesis
    by simp
qed



section \<open>Properties of the construction\<close>

lemma applicationStatus_of_error: "applicationStatus_of s = Inl e \<Longrightarrow> e = ValueError"
  by (auto simp: applicationStatus_of_def split: if_splits)

lemma to_date_error: "to_date a = Inl e \<Longrightarrow> e = ValueError"
  by (auto simp: to_date_def split: date_arg.splits dest: strptime_error)

lemma to_status_error: "to_status a = Inl e \<Longrightarrow> e = ValueError"
  by (auto simp: to_status_def split: status_arg.splits dest: applicationStatus_of_error)

lemma not_date_less: "\<not> date_less b a \<Longrightarrow> date_less a b \<or> a = b"
  by (cases a, cases b) (auto simp: date_less_def split: if_splits)

lemma date_less_asym: "date_less a b \<Longrightarrow> \<not> date_less b a"
  by (auto simp: date_less_def split: if_splits)

text \<open>
  C9. A spider that \<^verbatim>\<open>__init__\<close> has constructed has a start date that is not after
  its end date; when the start date the construction arrives at (supplied or the
  class attribute, a string parsed) is after the end date, the construction ends with
  \<^verbatim>\<open>ValueError\<close> and there is no spider to issue a request.
\<close>

theorem start_date_not_after_end_date:
  "(IdoxSpider_init today cfg = Inr self
      \<longrightarrow> (date_less (start_date self) (end_date self) \<or> start_date self = end_date self)
          \<and> \<not> date_less (end_date self) (start_date self))
   \<and> (to_date (case cfg_start_date cfg of None \<Rightarrow> class_start_date | Some a \<Rightarrow> a) = Inr sd
        \<and> to_date (case cfg_end_date cfg of None \<Rightarrow> class_end_date today | Some a \<Rightarrow> a) = Inr ed
        \<and> date_less ed sd
      \<longrightarrow> IdoxSpider_init today cfg = Inl ValueError)"
proof (intro conjI impI)
  assume a: "IdoxSpider_init today cfg = Inr self"
  then show n: "\<not> date_less (end_date self) (start_date self)"
    by (auto simp: IdoxSpider_init_def split: sum.splits if_splits)
  then show "date_less (start_date self) (end_date self) \<or> start_date self = end_date self"
    by (rule not_date_less)
next
  assume "to_date (case cfg_start_date cfg of None \<Rightarrow> class_start_date | Some a \<Rightarrow> a) = Inr sd
        \<and> to_date (case cfg_end_date cfg of None \<Rightarrow> class_end_date today | Some a \<Rightarrow> a) = Inr ed
        \<and> date_less ed sd"
  then show "IdoxSpider_init today cfg = Inl ValueError"
    by (auto simp: IdoxSpider_init_def split: sum.splits dest: to_status_error)
qed

text \<open>
  The construction on 2025-03-15 with no criteria supplied, and with the start date
  2025-02-01 and the end date 2025-01-01.
\<close>

theorem start_date_not_after_end_date_witness:
  "map_sum id (\<lambda>s. (start_date s, end_date s))
       (IdoxSpider_init \<lparr>year = 2025, month = 3, day = 15\<rparr> example_config)
     = Inr (\<lparr>year = 2024, month = 11, day = 1\<rparr>, \<lparr>year = 2025, month = 3, day = 15\<rparr>)
   \<and> date_less \<lparr>year = 2024, month = 11, day = 1\<rparr> \<lparr>year = 2025, month = 3, day = 15\<rparr>
   \<and> to_date (DateStr ''2025-02-01'') = Inr \<lparr>year = 2025, month = 2, day = 1\<rparr>
   \<and> to_date (DateStr ''2025-01-01'') = Inr \<lparr>year = 2025, month = 1, day = 1\<rparr>
   \<and> date_less \<lparr>year = 2025, month = 1, day = 1\<rparr> \<lparr>year = 2025, month = 2, day = 1\<rparr>
   \<and> IdoxSpider_init \<lparr>year = 2025, month = 3, day = 15\<rparr> reversed_config = Inl ValueError"
proof -
  let ?today = "\<lparr>year = 2025, month = 3, day = 15\<rparr>"
  have ok: "IdoxSpider_init ?today example_config = Inr example_spider"
    by code_simp
  have sd: "start_date example_spider = \<lparr>year = 2024, month = 11, day = 1\<rparr>"
    and ed: "end_date example_spider = \<lparr>year = 2025, month = 3, day = 15\<rparr>"
    by (simp_all add: example_spider_def)
  from start_date_not_after_end_date [of ?today example_config example_spider] ok
  have c1: "\<not> date_less (end_date example_spider) (start_date example_spider)"
    by blast
  have lt: "date_less \<lparr>year = 2024, month = 11, day = 1\<rparr> \<lparr>year = 2025, month = 3, day = 15\<rparr>"
    by code_simp
  have s: "to_date (case cfg_start_date reversed_config of None \<Rightarrow> class_start_date | Some a \<Rightarrow> a)
      = Inr \<lparr>year = 2025, month = 2, day = 1\<rparr>"
    by code_simp
  have e: "to_date (case cfg_end_date reversed_config of None \<Rightarrow> class_end_date ?today | Some a \<Rightarrow> a)
      = Inr \<lparr>year = 2025, month = 1, day = 1\<rparr>"
    by code_simp
  have s': "to_date (DateStr ''2025-02-01'') = Inr \<lparr>year = 2025, month = 2, day = 1\<rparr>"
    by code_simp
  have e': "to_date (DateStr ''2025-01-01'') = Inr \<lparr>year = 2025, month = 1, day = 1\<rparr>"
    by code_simp
  have r: "date_less \<lparr>year = 2025, month = 1, day = 1\<rparr> \<lparr>year = 2025, month = 2, day = 1\<rparr>"
    by code_simp
  from start_date_not_after_end_date
         [where today = ?today and cfg = reversed_config
            and sd = "\<lparr>year = 2025, month = 2, day = 1\<rparr>"
            and ed = "\<lparr>year = 2025, month = 1, day = 1\<rparr>"] s e r
  have c2: "IdoxSpider_init ?today reversed_config = Inl ValueError"
    by blast
  from ok sd ed lt s' e' r c2 show ?thesis
    by simp
qed

section \<open>Where the code departs from its specification\<close>

subsection \<open>A listing row whose link has no key parameter\<close>

lemma startswith_contains: "startswith s sep \<Longrightarrow> str_contains s sep"
  by (cases s) (auto elim: startswith.elims)

lemma split_from_no_sep:
  "\<not> str_contains s sep \<Longrightarrow> split_from sep acc s = [rev acc @ s]"
proof (induction s arbitrary: acc)
  case Nil
  then show ?case by simp
next
  case (Cons c cs)
  from Cons.prems have a: "\<not> startswith (c # cs) sep" and b: "\<not> str_contains cs sep"
    by simp_all
  from a b Cons.IH [of "c # acc"] show ?case
    by simp
qed

lemma keyval_of_no_parameter:
  "\<not> str_contains details_summary_url ''keyVal='' \<Longrightarrow> keyval_of details_summary_url = Inl IndexError"
  by (simp add: keyval_of_def str_split_def split_from_no_sep)

lemma parse_single_result_no_parameter:
  "\<not> str_contains (get_single_result_details_summary_url result response) ''keyVal=''
   \<Longrightarrow> parse_single_result self result response = (self, [], [], Some IndexError)"
  by (simp add: parse_single_result_def keyval_of_no_parameter Let_def)

lemma parse_single_result_empty_key:
  "keyval_of (get_single_result_details_summary_url result response) = Inr []
   \<Longrightarrow> parse_single_result self result response
       = (self,
          [(ERROR, ''Failed to parse keyval from ''
                   @ get_single_result_details_summary_url result response
                   @ '', can't continue'')],
          [], None)"
  by (simp add: parse_single_result_def Let_def)

text \<open>
  C3. A row whose link holds \<^verbatim>\<open>keyVal=\<close> with an empty value is logged and skipped
  (\<open>parse_single_result_empty_key\<close>). A row whose link does not hold \<^verbatim>\<open>keyVal=\<close> at
  all is not: the split has one piece, the index \<^verbatim>\<open>[1]\<close> raises \<^verbatim>\<open>IndexError\<close>
  (\<open>parse_single_result_no_parameter\<close>), and the exception ends \<^verbatim>\<open>parse_results\<close>.
  On the example page, whose first row has such a link, whose second row is good and
  which has a next link, \<^verbatim>\<open>parse_results\<close> logs no error, yields no request for
  the second row and none for the next page, and raises \<^verbatim>\<open>IndexError\<close>.
\<close>

theorem keyless_row_raises:
  "\<not> str_contains
        (get_single_result_details_summary_url
           \<lparr>href = Some ''/applicationDetails.do?activeTab=summary''\<rparr> keyless_row_page)
        ''keyVal=''
   \<and> parse_results example_spider keyless_row_page
     = (example_spider,
        [(INFO, ''Found 2 applications on https://pa.example.org/results.do''),
         (INFO, ''heading into /applicationDetails.do?activeTab=summary'')],
        [], Some IndexError)"
  by code_simp

subsection \<open>The default start date\<close>

lemma default_dates:
  assumes "IdoxSpider_init today cfg = Inr self"
  shows "cfg_start_date cfg = None
           \<Longrightarrow> start_date self = \<lparr>year = 2024, month = 11, day = 1\<rparr>"
    and "cfg_end_date cfg = None \<Longrightarrow> end_date self = today"
proof -
  have p: "to_date class_start_date = Inr \<lparr>year = 2024, month = 11, day = 1\<rparr>"
    by code_simp
  have q: "to_date (class_end_date today) = Inr today"
    by (simp add: class_end_date_def DEFAULT_END_DATE_def to_date_def)
  show "cfg_start_date cfg = None
          \<Longrightarrow> start_date self = \<lparr>year = 2024, month = 11, day = 1\<rparr>"
    using assms
    by (auto simp: IdoxSpider_init_def p split: sum.splits if_splits)
  show "cfg_end_date cfg = None \<Longrightarrow> end_date self = today"
    using assms
    by (auto simp: IdoxSpider_init_def q split: sum.splits if_splits)
qed

text \<open>
  C4. Constructed on 2025-03-15 with no dates supplied, the spider has the end date
  2025-03-15, which is today, and the start date 2024-11-01, the date written in the
  class attribute, not 2025-01-01. (\<open>default_dates\<close>: so it is on every day.) The
  module constant \<^verbatim>\<open>DEFAULT_START_DATE\<close>, which the class does not use, is
  2024-12-30 on that day: the Monday of ISO week 1 of 2025.
\<close>

theorem class_start_date_is_fixed:
  "map_sum id start_date (IdoxSpider_init \<lparr>year = 2025, month = 3, day = 15\<rparr> example_config)
     = Inr \<lparr>year = 2024, month = 11, day = 1\<rparr>
   \<and> map_sum id end_date (IdoxSpider_init \<lparr>year = 2025, month = 3, day = 15\<rparr> example_config)
     = Inr \<lparr>year = 2025, month = 3, day = 15\<rparr>
   \<and> DEFAULT_START_DATE \<lparr>year = 2025, month = 3, day = 15\<rparr>
     = \<lparr>year = 2024, month = 12, day = 30\<rparr>"
proof (intro conjI)
  show "map_sum id start_date
          (IdoxSpider_init \<lparr>year = 2025, month = 3, day = 15\<rparr> example_config)
        = Inr \<lparr>year = 2024, month = 11, day = 1\<rparr>"
    by code_simp
next
  show "map_sum id end_date
          (IdoxSpider_init \<lparr>year = 2025, month = 3, day = 15\<rparr> example_config)
        = Inr \<lparr>year = 2025, month = 3, day = 15\<rparr>"
    by code_simp
next
  show "DEFAULT_START_DATE \<lparr>year = 2025, month = 3, day = 15\<rparr>
        = \<lparr>year = 2024, month = 12, day = 30\<rparr>"
    by (simp add: DEFAULT_START_DATE_def isoweek1monday_offset_def days_before_year_def Let_def)
qed

subsection \<open>The merge of the two detail pages\<close>

lemma summary_tab_never_emits:
  "emitted (fst (snd (parse_details_summary_tab self response))) = []"
  by (auto simp: parse_details_summary_tab_def create_planning_application_item_def Let_def
        split: sum.splits)

lemma summary_tab_merge_raises:
  "simpleDetailsTable response = t # ts \<Longrightarrow> details_summary_of t = Inr ds
   \<Longrightarrow> meta_details_further_information (meta response) = Some df
   \<Longrightarrow> parse_details_summary_tab self response
       = ([(INFO, ''Parsing results on '' @ url response @ '' (parse_details_summary_tab)'')],
          [], Some TypeError)"
  by (simp add: parse_details_summary_tab_def create_planning_application_item_def Let_def)

text \<open>A crawl that ends within its bound ends the same way under any larger bound.\<close>

lemma crawl_more_fuel:
  "crawl n web ord self rs = Some r \<Longrightarrow> crawl (n + k) web ord self rs = Some r"
proof (induction n web ord self rs arbitrary: r rule: crawl.induct)
  case (1 fuel web ord self)
  then show ?case by simp
next
  case (2 web ord self r rs)
  then show ?case by simp
next
  case (3 fuel web ord self q qs)
  then show ?case
    by (auto split: prod.splits sum.splits)
qed

text \<open>
  C1. The row of the example listing spawns the two detail requests of the
  application \<^verbatim>\<open>AAA111\<close>. Both fetches complete: the summary tab holds its table,
  the further-information tab holds its own. Each handler finds no counterpart in the
  \<^verbatim>\<open>meta\<close> of its request and requests \<^verbatim>\<open>response.url\<close>, the page it has just
  parsed, for the other handler, which does not find its table there and raises
  \<^verbatim>\<open>IndexError\<close>. Whichever fetch completes first, the crawl ends with no record
  and two exceptions. Where the summary handler does find the further information in
  its \<^verbatim>\<open>meta\<close> (the further-information tab having come first, on a shared
  context), it raises \<^verbatim>\<open>TypeError\<close>: it calls \<^verbatim>\<open>create_planning_application_item\<close>
  without the \<^verbatim>\<open>response\<close> (\<open>summary_tab_merge_raises\<close>), and it never yields
  a record (\<open>summary_tab_never_emits\<close>).
\<close>

theorem detail_pair_emits_no_record:
  "fst (parse_results example_spider one_row_page)
     = example_spider\<lparr>applications_scraped := 1\<rparr>
   \<and> fst (snd (snd (parse_results example_spider one_row_page)))
     = [Request summary_request, Request details_request]
   \<and> map_option (\<lambda>r. (records r, raised r))
        (crawl 4 example_web Oldest_first (example_spider\<lparr>applications_scraped := 1\<rparr>)
           [summary_request, details_request])
     = Some ([], [IndexError, IndexError])
   \<and> map_option (\<lambda>r. (records r, raised r))
        (crawl 4 example_web Newest_first (example_spider\<lparr>applications_scraped := 1\<rparr>)
           [summary_request, details_request])
     = Some ([], [IndexError, IndexError])
   \<and> snd (parse_details_summary_tab example_spider
            (summary_page\<lparr>meta := row_meta
               \<lparr>meta_details_further_information :=
                  Some (details_further_information_of
                          (hd (applicationDetails details_page)))\<rparr>\<rparr>))
     = ([], Some TypeError)"
proof (intro conjI)
  show "fst (parse_results example_spider one_row_page)
        = example_spider\<lparr>applications_scraped := 1\<rparr>"
    by code_simp
next
  show "fst (snd (snd (parse_results example_spider one_row_page)))
        = [Request summary_request, Request details_request]"
    by code_simp
next
  show "map_option (\<lambda>r. (records r, raised r))
          (crawl 4 example_web Oldest_first (example_spider\<lparr>applications_scraped := 1\<rparr>)
             [summary_request, details_request])
        = Some ([], [IndexError, IndexError])"
    by code_simp
next
  show "map_option (\<lambda>r. (records r, raised r))
          (crawl 4 example_web Newest_first (example_spider\<lparr>applications_scraped := 1\<rparr>)
             [summary_request, details_request])
        = Some ([], [IndexError, IndexError])"
    by code_simp
next
  show "snd (parse_details_summary_tab example_spider
              (summary_page\<lparr>meta := row_meta
                 \<lparr>meta_details_further_information :=
                    Some (details_further_information_of
                            (hd (applicationDetails details_page)))\<rparr>\<rparr>))
        = ([], Some TypeError)"
    by code_simp
qed

end
